theory Spec2Isabelle
  imports Main "HOL-Library.Word"
begin

unbundle bit_operations_syntax

section \<open>SPSC ring buffer (include/core/LockFreeRingBuffer.hpp)\<close>

text \<open>
  \<^verbatim>\<open>LockFreeRingBuffer<T, Capacity>\<close> holds two \<^verbatim>\<open>size_t\<close> indices and an array of
  \<^verbatim>\<open>Capacity\<close> slots.  The template parameter \<^verbatim>\<open>Capacity\<close> is the first argument of
  every operation below; \<^verbatim>\<open>size_t\<close> is a 64-bit word.  The operations are modelled
  as called by one thread at a time, so the atomic loads and stores are plain reads and
  writes of the record fields.
\<close>

type_synonym u64 = "64 word"

record 'a ring =
  m_head :: u64
  m_tail :: u64
  m_buffer :: "'a list"

text \<open>The constructor sets both indices to 0; the slots hold the value \<open>d\<close>.\<close>

definition ring_new :: "u64 \<Rightarrow> 'a \<Rightarrow> 'a ring" where
  "ring_new cap d = \<lparr>m_head = 0, m_tail = 0, m_buffer = replicate (unat cap) d\<rparr>"

definition push :: "u64 \<Rightarrow> 'a \<Rightarrow> 'a ring \<Rightarrow> bool \<times> 'a ring" where
  "push cap item s =
     (let current_tail = m_tail s;
          next_tail = (current_tail + 1) AND (cap - 1);
          current_head = m_head s
      in if next_tail = current_head then (False, s)
         else (True, s\<lparr>m_buffer := (m_buffer s)[unat current_tail := item],
                        m_tail := next_tail\<rparr>))"

definition pop :: "u64 \<Rightarrow> 'a ring \<Rightarrow> 'a option \<times> 'a ring" where
  "pop cap s =
     (let current_head = m_head s;
          current_tail = m_tail s
      in if current_head = current_tail then (None, s)
         else (let item = m_buffer s ! unat current_head;
                   next_head = (current_head + 1) AND (cap - 1)
               in (Some item, s\<lparr>m_head := next_head\<rparr>)))"

text \<open>A scenario is a list of calls; running it collects what each call returns.\<close>

datatype 'a ring_op = Push 'a | Pop

datatype 'a ring_result = Pushed bool | Popped "'a option"

fun ring_run :: "u64 \<Rightarrow> 'a ring_op list \<Rightarrow> 'a ring \<Rightarrow> 'a ring_result list" where
  "ring_run cap [] s = []"
| "ring_run cap (Push v # ops) s =
     (case push cap v s of (ok, s') \<Rightarrow> Pushed ok # ring_run cap ops s')"
| "ring_run cap (Pop # ops) s =
     (case pop cap s of (r, s') \<Rightarrow> Popped r # ring_run cap ops s')"

text \<open>The states that calls of \<open>push\<close> and \<open>pop\<close> reach from the constructor.\<close>

inductive ring_reachable :: "u64 \<Rightarrow> 'a \<Rightarrow> 'a ring \<Rightarrow> bool" for cap :: u64 and d :: 'a where
  reach_new: "ring_reachable cap d (ring_new cap d)"
| reach_push: "ring_reachable cap d s \<Longrightarrow> ring_reachable cap d (snd (push cap v s))"
| reach_pop: "ring_reachable cap d s \<Longrightarrow> ring_reachable cap d (snd (pop cap s))"

text \<open>The scenario of the specification, for capacity 4.\<close>

definition scenario_ops :: "int ring_op list" where
  "scenario_ops =
     [Push 1, Push 2, Push 3, Pop, Push 4, Push 5, Push 6, Pop, Pop, Pop,
      Push 7, Push 8, Push 9, Pop, Pop, Pop, Pop, Pop, Pop]"

definition scenario_claimed :: "int ring_result list" where
  "scenario_claimed =
     [Pushed True, Pushed True, Pushed True, Popped (Some 1), Pushed True, Pushed True,
      Pushed False, Popped (Some 2), Popped (Some 3), Popped (Some 4),
      Pushed True, Pushed True, Pushed True,
      Popped (Some 5), Popped (Some 6), Popped (Some 7), Popped (Some 8), Popped (Some 9),
      Popped None]"

definition scenario_actual :: "int ring_result list" where
  "scenario_actual =
     [Pushed True, Pushed True, Pushed True, Popped (Some 1), Pushed True, Pushed False,
      Pushed False, Popped (Some 2), Popped (Some 3), Popped (Some 4),
      Pushed True, Pushed True, Pushed True,
      Popped (Some 7), Popped (Some 8), Popped (Some 9), Popped None, Popped None,
      Popped None]"

text \<open>What holds of every reachable state when the capacity is \<open>2 ^ k\<close>.\<close>

definition ring_inv :: "nat \<Rightarrow> 'a ring \<Rightarrow> bool" where
  "ring_inv k s \<longleftrightarrow>
     unat (m_head s) < 2 ^ k \<and> unat (m_tail s) < 2 ^ k \<and> length (m_buffer s) = 2 ^ k"

section \<open>Byte-addressed memory\<close>

text \<open>
  The slab allocator and the arena read and write 64-bit fields through raw pointers.
  Memory is a map from 64-bit addresses to bytes; a 64-bit field at address \<open>a\<close>
  occupies the bytes \<open>a, a + 1, \<dots>, a + 7\<close> (addresses wrap modulo \<open>2 ^ 64\<close>), least
  significant byte first, as on the little-endian targets of the code (x86-64, AArch64).
  An access need not be aligned.
\<close>

type_synonym u8 = "8 word"
type_synonym memory = "u64 \<Rightarrow> u8"

definition load64 :: "memory \<Rightarrow> u64 \<Rightarrow> u64" where
  "load64 m a =
     ucast (m a) OR push_bit 8 (ucast (m (a + 1))) OR push_bit 16 (ucast (m (a + 2))) OR
     push_bit 24 (ucast (m (a + 3))) OR push_bit 32 (ucast (m (a + 4))) OR
     push_bit 40 (ucast (m (a + 5))) OR push_bit 48 (ucast (m (a + 6))) OR
     push_bit 56 (ucast (m (a + 7)))"

text \<open>Byte \<open>x\<close> is overwritten when \<open>x - a\<close> is one of \<open>0, \<dots>, 7\<close>.\<close>

definition store64 :: "memory \<Rightarrow> u64 \<Rightarrow> u64 \<Rightarrow> memory" where
  "store64 m a v = (\<lambda>x. if x - a < 8 then ucast (drop_bit (8 * unat (x - a)) v) else m x)"

section \<open>Slab allocator (include/memory/SlabAllocator.hpp)\<close>

text \<open>
  \<^verbatim>\<open>BlockHeader\<close> is \<^verbatim>\<open>alignas(64)\<close>, so \<^verbatim>\<open>sizeof(BlockHeader)\<close> is 64; its only field
  \<^verbatim>\<open>size_and_state\<close> is the first 8 bytes.  \<^verbatim>\<open>BlockFooter\<close> is 8 bytes.  A
  \<^verbatim>\<open>FreeNode\<close> is \<^verbatim>\<open>next_offset\<close> at byte 0 and \<^verbatim>\<open>prev_offset\<close> at byte 8.
  Pointers are addresses (\<open>u64\<close>); the header operations take the memory and the
  address of the header.
\<close>

definition ALIGNMENT :: u64 where "ALIGNMENT = 64"
definition sizeof_BlockHeader :: u64 where "sizeof_BlockHeader = 64"
definition sizeof_BlockFooter :: u64 where "sizeof_BlockFooter = 8"
definition FREE_MASK :: u64 where "FREE_MASK = 1"
definition SIZE_MASK :: u64 where "SIZE_MASK = NOT FREE_MASK"

definition GetSize :: "memory \<Rightarrow> u64 \<Rightarrow> u64" where
  "GetSize m hdr = load64 m hdr AND SIZE_MASK"

definition IsFree :: "memory \<Rightarrow> u64 \<Rightarrow> bool" where
  "IsFree m hdr \<longleftrightarrow> load64 m hdr AND FREE_MASK \<noteq> 0"

definition Set_hdr :: "memory \<Rightarrow> u64 \<Rightarrow> u64 \<Rightarrow> bool \<Rightarrow> memory" where
  "Set_hdr m hdr sz free =
     store64 m hdr ((sz AND SIZE_MASK) OR (if free then FREE_MASK else 0))"

definition SetFree :: "memory \<Rightarrow> u64 \<Rightarrow> bool \<Rightarrow> memory" where
  "SetFree m hdr free =
     (if free then store64 m hdr (load64 m hdr OR FREE_MASK)
      else store64 m hdr (load64 m hdr AND SIZE_MASK))"

definition SetSize :: "memory \<Rightarrow> u64 \<Rightarrow> u64 \<Rightarrow> memory" where
  "SetSize m hdr sz =
     (let free = IsFree m hdr
      in store64 m hdr ((sz AND SIZE_MASK) OR (if free then FREE_MASK else 0)))"

text \<open>
  Modelled from the spec: \<^verbatim>\<open>Allocate\<close> calls \<^verbatim>\<open>header->SetUsed(false)\<close> on its whole-block
  path, a member that \<^verbatim>\<open>BlockHeader\<close> does not declare.  The specification's whole-block
  use "flips the header state to used", which is \<^verbatim>\<open>SetFree(false)\<close>; the call is read as
  that.  \<^verbatim>\<open>Allocate\<close> does not read the header between this call and the
  \<^verbatim>\<open>SetFree(false)\<close> it makes itself a few statements later.
\<close>

definition SetUsed :: "memory \<Rightarrow> u64 \<Rightarrow> bool \<Rightarrow> memory" where
  "SetUsed m hdr b = SetFree m hdr b"

definition GetPayload :: "u64 \<Rightarrow> u64" where
  "GetPayload hdr = hdr + sizeof_BlockHeader"

definition GetFooter :: "memory \<Rightarrow> u64 \<Rightarrow> u64" where
  "GetFooter m hdr = hdr + GetSize m hdr - sizeof_BlockFooter"

definition UpdateFooter :: "memory \<Rightarrow> u64 \<Rightarrow> memory" where
  "UpdateFooter m hdr = store64 m (GetFooter m hdr) (load64 m hdr)"

definition next_offset :: "memory \<Rightarrow> u64 \<Rightarrow> u64" where
  "next_offset m node = load64 m node"

definition prev_offset :: "memory \<Rightarrow> u64 \<Rightarrow> u64" where
  "prev_offset m node = load64 m (node + 8)"

definition set_next_offset :: "memory \<Rightarrow> u64 \<Rightarrow> u64 \<Rightarrow> memory" where
  "set_next_offset m node v = store64 m node v"

definition set_prev_offset :: "memory \<Rightarrow> u64 \<Rightarrow> u64 \<Rightarrow> memory" where
  "set_prev_offset m node v = store64 m (node + 8) v"

text \<open>
  The allocator object.  \<open>heap\<close> is the memory the pointer \<^verbatim>\<open>m_base\<close> points into.  The
  spinlock is taken on entry and released on exit of every operation; the operations are
  modelled as they run one at a time, so it has no field.
\<close>

record SlabAllocator =
  m_base :: u64
  m_total_size :: u64
  m_base_offset :: u64
  m_free_list_head_offset :: u64
  m_first_block_offset :: u64
  heap :: memory

definition GetPtr :: "SlabAllocator \<Rightarrow> u64 \<Rightarrow> u64" where
  "GetPtr s offset = m_base s + (offset - m_base_offset s)"

definition Init :: "SlabAllocator \<Rightarrow> SlabAllocator" where
  "Init s =
     (let base = m_base s;
          aligned_base = (base + ALIGNMENT - 1) AND NOT (ALIGNMENT - 1);
          adjustment = aligned_base - base;
          effective_start = m_base_offset s + adjustment;
          effective_size = m_total_size s - adjustment
      in if effective_size < sizeof_BlockHeader + sizeof_BlockFooter then s
         else
           (let s1 = s\<lparr>m_first_block_offset := effective_start\<rparr>;
                header = GetPtr s1 (m_first_block_offset s1);
                h1 = Set_hdr (heap s1) header effective_size True;
                h2 = UpdateFooter h1 header;
                node = GetPayload header;
                h3 = set_next_offset h2 node 0;
                h4 = set_prev_offset h3 node 0
            in s1\<lparr>heap := h4, m_free_list_head_offset := m_first_block_offset s1\<rparr>))"

text \<open>
  The constructor.  It leaves \<^verbatim>\<open>m_first_block_offset\<close> uninitialised when \<^verbatim>\<open>Init\<close>
  returns early; the model takes the indeterminate value as \<open>junk\<close>.
\<close>

definition SlabAllocator_new :: "memory \<Rightarrow> u64 \<Rightarrow> u64 \<Rightarrow> u64 \<Rightarrow> u64 \<Rightarrow> SlabAllocator" where
  "SlabAllocator_new mem base_addr total_size start_offset junk =
     Init \<lparr>m_base = base_addr, m_total_size = total_size, m_base_offset = start_offset,
           m_free_list_head_offset = 0, m_first_block_offset = junk, heap = mem\<rparr>"

definition InsertHead :: "u64 \<Rightarrow> SlabAllocator \<Rightarrow> SlabAllocator" where
  "InsertHead offset s =
     (let header = GetPtr s offset;
          node = GetPayload header;
          h1 = set_next_offset (heap s) node (m_free_list_head_offset s);
          h2 = set_prev_offset h1 node 0;
          h3 = (if m_free_list_head_offset s \<noteq> 0
                then (let old_head = GetPtr s (m_free_list_head_offset s)
                      in set_prev_offset h2 (GetPayload old_head) offset)
                else h2)
      in s\<lparr>heap := h3, m_free_list_head_offset := offset\<rparr>)"

definition RemoveFromFreeList :: "u64 \<Rightarrow> SlabAllocator \<Rightarrow> SlabAllocator" where
  "RemoveFromFreeList offset s =
     (let header = GetPtr s offset;
          node = GetPayload header;
          s1 = (if prev_offset (heap s) node \<noteq> 0
                then (let prev = GetPtr s (prev_offset (heap s) node)
                      in s\<lparr>heap := set_next_offset (heap s) (GetPayload prev)
                                       (next_offset (heap s) node)\<rparr>)
                else s\<lparr>m_free_list_head_offset := next_offset (heap s) node\<rparr>)
      in if next_offset (heap s1) node \<noteq> 0
         then (let next = GetPtr s1 (next_offset (heap s1) node)
               in s1\<lparr>heap := set_prev_offset (heap s1) (GetPayload next)
                                  (prev_offset (heap s1) node)\<rparr>)
         else s1)"

text \<open>
  The body of the first-fit loop once a block at \<open>curr_offset\<close> is large enough: split
  it, or use it whole.  Every read is made where the source makes it, so that a write
  that lands on a field read later is seen by that read.
\<close>

definition take_block :: "u64 \<Rightarrow> u64 \<Rightarrow> SlabAllocator \<Rightarrow> u64 \<times> SlabAllocator" where
  "take_block required_total_size curr_offset s =
     (let header = GetPtr s curr_offset;
          free_node = GetPayload header;
          remaining_size = GetSize (heap s) header - required_total_size
      in if remaining_size \<ge> sizeof_BlockHeader + 64 + sizeof_BlockFooter
         then
           (let h1 = Set_hdr (heap s) header required_total_size False;
                h2 = UpdateFooter h1 header;
                new_block_offset = curr_offset + required_total_size;
                new_header = GetPtr s new_block_offset;
                h3 = Set_hdr h2 new_header remaining_size True;
                h4 = UpdateFooter h3 new_header;
                new_node = GetPayload new_header;
                h5 = set_prev_offset h4 new_node (prev_offset h4 free_node);
                h6 = set_next_offset h5 new_node (next_offset h5 free_node);
                s6 = s\<lparr>heap := h6\<rparr>;
                s7 = (if prev_offset h6 new_node \<noteq> 0
                      then (let prev = GetPtr s6 (prev_offset h6 new_node)
                            in s6\<lparr>heap := set_next_offset h6 (GetPayload prev) new_block_offset\<rparr>)
                      else s6\<lparr>m_free_list_head_offset := new_block_offset\<rparr>);
                s8 = (if next_offset (heap s7) new_node \<noteq> 0
                      then (let next = GetPtr s7 (next_offset (heap s7) new_node)
                            in s7\<lparr>heap := set_prev_offset (heap s7) (GetPayload next)
                                               new_block_offset\<rparr>)
                      else s7)
            in (curr_offset + sizeof_BlockHeader, s8))
         else
           (let s1 = s\<lparr>heap := SetUsed (heap s) header False\<rparr>;
                s2 = (if prev_offset (heap s1) free_node \<noteq> 0
                      then (let prev = GetPtr s1 (prev_offset (heap s1) free_node)
                            in s1\<lparr>heap := set_next_offset (heap s1) (GetPayload prev)
                                               (next_offset (heap s1) free_node)\<rparr>)
                      else s1\<lparr>m_free_list_head_offset := next_offset (heap s1) free_node\<rparr>);
                s3 = (if next_offset (heap s2) free_node \<noteq> 0
                      then (let next = GetPtr s2 (next_offset (heap s2) free_node)
                            in s2\<lparr>heap := set_prev_offset (heap s2) (GetPayload next)
                                               (prev_offset (heap s2) free_node)\<rparr>)
                      else s2);
                h4 = SetFree (heap s3) header False;
                h5 = UpdateFooter h4 header
            in (curr_offset + sizeof_BlockHeader, s3\<lparr>heap := h5\<rparr>)))"

text \<open>
  The first-fit loop.  On a cyclic free list it does not end; the result is then
  \<open>None\<close>.
\<close>

partial_function (option) first_fit ::
    "u64 \<Rightarrow> u64 \<Rightarrow> SlabAllocator \<Rightarrow> (u64 \<times> SlabAllocator) option" where
  "first_fit required_total_size curr_offset s =
     (if curr_offset \<noteq> 0
      then (let header = GetPtr s curr_offset;
                free_node = GetPayload header
            in if GetSize (heap s) header \<ge> required_total_size
               then Some (take_block required_total_size curr_offset s)
               else first_fit required_total_size (next_offset (heap s) free_node) s)
      else Some (0, s))"

declare first_fit.simps [code]

definition Allocate :: "u64 \<Rightarrow> SlabAllocator \<Rightarrow> (u64 \<times> SlabAllocator) option" where
  "Allocate sz s =
     (if sz = 0 then Some (0, s)
      else
        (let footer_size = sizeof_BlockFooter;
             payload_size = (sz + 63) AND NOT 63;
             required_total_size = sizeof_BlockHeader + payload_size + footer_size;
             required_total_size' = (required_total_size + ALIGNMENT - 1) AND NOT (ALIGNMENT - 1)
         in first_fit required_total_size' (m_free_list_head_offset s) s))"

definition Free :: "u64 \<Rightarrow> SlabAllocator \<Rightarrow> SlabAllocator" where
  "Free payload_offset s =
     (if payload_offset = 0 then s
      else
        (let block_offset = payload_offset - sizeof_BlockHeader;
             header = GetPtr s block_offset
         in if IsFree (heap s) header then s
            else
              (let h1 = SetFree (heap s) header True;
                   h2 = UpdateFooter h1 header;
                   s2 = s\<lparr>heap := h2\<rparr>;
                   next_block_offset = block_offset + GetSize h2 header;
                   s3 = (if next_block_offset < m_total_size s2 + m_base_offset s2
                         then (let next_hdr = GetPtr s2 next_block_offset
                               in if next_hdr \<noteq> 0 \<and> IsFree (heap s2) next_hdr
                                  then (let r = RemoveFromFreeList next_block_offset s2;
                                            new_size = GetSize (heap r) header + GetSize (heap r) next_hdr;
                                            h3 = SetSize (heap r) header new_size;
                                            h4 = UpdateFooter h3 header
                                        in r\<lparr>heap := h4\<rparr>)
                                  else s2)
                         else s2)
               in if block_offset > m_first_block_offset s3
                  then (let prev_footer = header - sizeof_BlockFooter;
                            prev_size = load64 (heap s3) prev_footer AND SIZE_MASK;
                            prev_free = (load64 (heap s3) prev_footer AND FREE_MASK \<noteq> 0)
                        in if prev_free
                           then (let prev_offset' = block_offset - prev_size;
                                     prev_hdr = GetPtr s3 prev_offset';
                                     new_size = GetSize (heap s3) prev_hdr + GetSize (heap s3) header;
                                     h5 = SetSize (heap s3) prev_hdr new_size;
                                     h6 = UpdateFooter h5 prev_hdr
                                 in s3\<lparr>heap := h6\<rparr>)
                           else InsertHead block_offset s3)
                  else InsertHead block_offset s3)))"


text \<open>
  The scenario "allocate 100 three times, free the middle one, allocate 100 again": the
  four offsets the calls to \<open>Allocate\<close> return.
\<close>

definition first_fit_scenario :: "SlabAllocator \<Rightarrow> (u64 \<times> u64 \<times> u64 \<times> u64) option" where
  "first_fit_scenario s0 =
     (case Allocate 100 s0 of None \<Rightarrow> None | Some (p1, s1) \<Rightarrow>
     (case Allocate 100 s1 of None \<Rightarrow> None | Some (p2, s2) \<Rightarrow>
     (case Allocate 100 s2 of None \<Rightarrow> None | Some (p3, s3) \<Rightarrow>
     (case Allocate 100 (Free p2 s3) of None \<Rightarrow> None | Some (p4, s4) \<Rightarrow>
        Some (p1, p2, p3, p4)))))"

text \<open>
  The bytes \<^verbatim>\<open>Init\<close> skips at the start of the region at address \<open>b\<close> to reach the next
  multiple of \<^verbatim>\<open>ALIGNMENT\<close>: its \<^verbatim>\<open>adjustment\<close>, \<^verbatim>\<open>aligned_base - base\<close>.
\<close>

definition adjustment :: "u64 \<Rightarrow> u64" where
  "adjustment b = ((b + ALIGNMENT - 1) AND NOT (ALIGNMENT - 1)) - b"

text \<open>
  The parameters of a 1 MiB slab at address \<open>b\<close> with base offset \<open>ofs\<close>, whose first
  block starts \<open>adj\<close> bytes into the region.
\<close>

definition slab_1MiB :: "u64 \<Rightarrow> u64 \<Rightarrow> u64 \<Rightarrow> SlabAllocator \<Rightarrow> bool" where
  "slab_1MiB b ofs adj s \<longleftrightarrow>
     m_base s = b \<and> m_total_size s = 1048576 \<and> m_base_offset s = ofs \<and>
     m_first_block_offset s = ofs + adj"

text \<open>
  The size \<open>E\<close> the header of the first block of a 1 MiB slab holds: an even number of
  bytes, less than 1 MiB by at most 64.
\<close>

definition first_block_size :: "u64 \<Rightarrow> bool" where
  "first_block_size E \<longleftrightarrow> even E \<and> 1048512 \<le> unat E \<and> unat E \<le> 1048576"

section \<open>Ghost arena (mm/MemoryManager.hpp, mm/MemoryManager.cpp)\<close>

text \<open>
  The enumerator \<^verbatim>\<open>None\<close> of \<^verbatim>\<open>RuntimeError\<close> is written \<open>RuntimeError_None\<close>.
\<close>

datatype RuntimeError =
    RuntimeError_None
  | InitializationFailed
  | PortAllocationFailed
  | ThreadSpawnFailed
  | MemoryReservationFailed
  | InvalidAccess
  | OperatingSystemError

definition GHOST_SPACE_SIZE :: u64 where "GHOST_SPACE_SIZE = 1099511627776"
definition GHOST_MAGIC :: u64 where "GHOST_MAGIC = 0xC06DFEEDDEADBEEF"

text \<open>
  \<^verbatim>\<open>MemoryHeader\<close> is three \<^verbatim>\<open>uint64_t\<close> fields without padding: \<^verbatim>\<open>magic\<close> at byte 0,
  \<^verbatim>\<open>vector_count\<close> at byte 8, \<^verbatim>\<open>head_offset\<close> at byte 16.
\<close>

definition sizeof_MemoryHeader :: u64 where "sizeof_MemoryHeader = 24"

definition magic :: "memory \<Rightarrow> u64 \<Rightarrow> u64" where
  "magic m header = load64 m header"

definition vector_count :: "memory \<Rightarrow> u64 \<Rightarrow> u64" where
  "vector_count m header = load64 m (header + 8)"

definition head_offset :: "memory \<Rightarrow> u64 \<Rightarrow> u64" where
  "head_offset m header = load64 m (header + 16)"

text \<open>
  The manager.  \<open>m_base_addr = 0\<close> is the null pointer.  \<open>ghost\<close> is the content of the
  address space the arena lies in.  A first access to a page of the arena faults; the
  handler commits a zero-filled page and the access is retried, so that the program reads
  0 from a byte never written: \<open>ghost\<close> holds the bytes as the program reads them.
\<close>

record MemoryManager =
  m_base_addr :: u64
  m_running :: bool
  m_fault_count :: u64
  m_resident_pages :: u64
  ghost :: memory

definition get_ghost_ptr :: "MemoryManager \<Rightarrow> u64 \<Rightarrow> RuntimeError + u64" where
  "get_ghost_ptr mm offset =
     (if offset \<ge> GHOST_SPACE_SIZE then Inl InvalidAccess
      else if m_base_addr mm = 0 then Inl InitializationFailed
      else Inr (m_base_addr mm + offset))"

definition initialize_header :: "MemoryManager \<Rightarrow> MemoryManager" where
  "initialize_header mm =
     (case get_ghost_ptr mm 0 of
        Inl e \<Rightarrow> mm
      | Inr header \<Rightarrow>
          if magic (ghost mm) header \<noteq> GHOST_MAGIC
          then (let g1 = store64 (ghost mm) header GHOST_MAGIC;
                    g2 = store64 g1 (header + 8) 0;
                    g3 = store64 g2 (header + 16) sizeof_MemoryHeader
                in mm\<lparr>ghost := g3\<rparr>)
          else mm)"

section \<open>Document pipeline (core/ProcessingUnit.cpp)\<close>

text \<open>
  \<^verbatim>\<open>ProcessDocument\<close> computes on \<^verbatim>\<open>float\<close>.  The operations it uses are a parameter of
  the model, on a type \<open>'f\<close> of float values; nothing is assumed of them.
\<close>

type_synonym u32 = "32 word"

record 'f float_ops =
  f_of_int :: "u32 \<Rightarrow> 'f"
  f_zero :: 'f
  f_one :: 'f
  f_255 :: 'f
  f_add :: "'f \<Rightarrow> 'f \<Rightarrow> 'f"
  f_sub :: "'f \<Rightarrow> 'f \<Rightarrow> 'f"
  f_mul :: "'f \<Rightarrow> 'f \<Rightarrow> 'f"
  f_div :: "'f \<Rightarrow> 'f \<Rightarrow> 'f"
  f_less :: "'f \<Rightarrow> 'f \<Rightarrow> bool"
  f_abs_lt_1em6 :: "'f \<Rightarrow> bool"
  f_round_to_int :: "'f \<Rightarrow> u32"
  f_bits :: "'f \<Rightarrow> u32"

text \<open>
  \<open>f_of_int\<close> is \<^verbatim>\<open>static_cast<float>\<close> of an \<^verbatim>\<open>int\<close>, \<open>f_abs_lt_1em6 x\<close> is
  \<^verbatim>\<open>std::abs(x) < 1e-6\<close>, \<open>f_round_to_int x\<close> is \<^verbatim>\<open>static_cast<int>(std::round(x))\<close>, and
  \<open>f_bits\<close> is the object representation that \<^verbatim>\<open>memcpy\<close> copies, four bytes.
\<close>

subsection \<open>The float operations of an x86-64 machine\<close>

text \<open>
  \<^verbatim>\<open>float\<close> is IEEE-754 binary32, here its 32-bit pattern: sign, 8 bits of exponent, 23 bits
  of mantissa.  Every finite value is a whole multiple of \<open>2\<^sup>-\<^sup>1\<^sup>4\<^sup>9\<close>; \<open>f32_mag\<close> is the
  magnitude in that unit.
\<close>

definition f32_sign :: "u32 \<Rightarrow> bool" where
  "f32_sign w \<longleftrightarrow> bit w 31"

definition f32_exp :: "u32 \<Rightarrow> nat" where
  "f32_exp w = unat (drop_bit 23 w AND 255)"

definition f32_man :: "u32 \<Rightarrow> nat" where
  "f32_man w = unat (w AND 8388607)"

definition f32_is_nan :: "u32 \<Rightarrow> bool" where
  "f32_is_nan w \<longleftrightarrow> f32_exp w = 255 \<and> f32_man w \<noteq> 0"

definition f32_is_inf :: "u32 \<Rightarrow> bool" where
  "f32_is_inf w \<longleftrightarrow> f32_exp w = 255 \<and> f32_man w = 0"

definition f32_mag :: "u32 \<Rightarrow> nat" where
  "f32_mag w = (if f32_exp w = 0 then f32_man w
                else (8388608 + f32_man w) * 2 ^ (f32_exp w - 1))"

definition f32_val :: "u32 \<Rightarrow> int" where
  "f32_val w = (if f32_sign w then - int (f32_mag w) else int (f32_mag w))"

definition f32_pack :: "bool \<Rightarrow> nat \<Rightarrow> nat \<Rightarrow> u32" where
  "f32_pack s e m = (if s then 2147483648 else 0) OR push_bit 23 (of_nat e) OR of_nat m"

text \<open>
  Rounding to nearest, ties to even, of the magnitude \<open>num / den\<close> (in the unit
  \<open>2\<^sup>-\<^sup>1\<^sup>4\<^sup>9\<close>): \<open>f32_shift\<close> finds the binade, the least \<open>j\<close> for which the magnitude
  divided by \<open>2\<^sup>j\<close> is below \<open>2\<^sup>2\<^sup>4\<close>; a result beyond the largest finite value is an
  infinity.
\<close>

function f32_shift :: "nat \<Rightarrow> nat \<Rightarrow> nat" where
  "f32_shift q j = (if q < 16777216 then j else f32_shift (q div 2) (j + 1))"
  by pat_completeness auto
termination
  by (relation "measure (\<lambda>(q, j). q)") auto

declare f32_shift.simps [simp del]

definition f32_round :: "bool \<Rightarrow> nat \<Rightarrow> nat \<Rightarrow> u32" where
  "f32_round s num den =
     (let j = f32_shift (num div den) 0;
          d = den * 2 ^ j;
          n0 = num div d;
          r = num mod d;
          n1 = (if 2 * r > d \<or> (2 * r = d \<and> odd n0) then n0 + 1 else n0);
          n = (if n1 = 16777216 then 8388608 else n1);
          j' = (if n1 = 16777216 then j + 1 else j);
          e = (if n < 8388608 then 0 else j' + 1)
      in if e \<ge> 255 then f32_pack s 255 0 else f32_pack s e (n mod 8388608))"

text \<open>
  An invalid operation gives the default NaN; an operation on a NaN gives its first NaN
  operand, made quiet.
\<close>

definition f32_default_nan :: u32 where
  "f32_default_nan = 4290772992"

definition f32_nan_of :: "u32 \<Rightarrow> u32 \<Rightarrow> u32" where
  "f32_nan_of a b = (if f32_is_nan a then a OR 4194304 else b OR 4194304)"

definition f32_add :: "u32 \<Rightarrow> u32 \<Rightarrow> u32" where
  "f32_add a b =
     (if f32_is_nan a \<or> f32_is_nan b then f32_nan_of a b
      else if f32_is_inf a
           then (if f32_is_inf b \<and> f32_sign a \<noteq> f32_sign b then f32_default_nan else a)
      else if f32_is_inf b then b
      else (let v = f32_val a + f32_val b
            in if v = 0 then f32_pack (f32_sign a \<and> f32_sign b) 0 0
               else f32_round (v < 0) (nat \<bar>v\<bar>) 1))"

definition f32_sub :: "u32 \<Rightarrow> u32 \<Rightarrow> u32" where
  "f32_sub a b =
     (if f32_is_nan a \<or> f32_is_nan b then f32_nan_of a b
      else f32_add a (b XOR 2147483648))"

definition f32_mul :: "u32 \<Rightarrow> u32 \<Rightarrow> u32" where
  "f32_mul a b =
     (if f32_is_nan a \<or> f32_is_nan b then f32_nan_of a b
      else (let s = (f32_sign a \<noteq> f32_sign b)
            in if f32_is_inf a \<or> f32_is_inf b
               then (if (\<not> f32_is_inf a \<and> f32_mag a = 0) \<or> (\<not> f32_is_inf b \<and> f32_mag b = 0)
                     then f32_default_nan else f32_pack s 255 0)
               else f32_round s (f32_mag a * f32_mag b) (2 ^ 149)))"

definition f32_div :: "u32 \<Rightarrow> u32 \<Rightarrow> u32" where
  "f32_div a b =
     (if f32_is_nan a \<or> f32_is_nan b then f32_nan_of a b
      else (let s = (f32_sign a \<noteq> f32_sign b)
            in if f32_is_inf a then (if f32_is_inf b then f32_default_nan else f32_pack s 255 0)
               else if f32_is_inf b then f32_pack s 0 0
               else if f32_mag b = 0
                    then (if f32_mag a = 0 then f32_default_nan else f32_pack s 255 0)
               else f32_round s (f32_mag a * 2 ^ 149) (f32_mag b)))"

definition f32_less :: "u32 \<Rightarrow> u32 \<Rightarrow> bool" where
  "f32_less a b \<longleftrightarrow>
     \<not> f32_is_nan a \<and> \<not> f32_is_nan b \<and>
     (if f32_is_inf a then f32_sign a \<and> \<not> (f32_is_inf b \<and> f32_sign b)
      else if f32_is_inf b then \<not> f32_sign b
      else f32_val a < f32_val b)"

text \<open>
  The literal \<^verbatim>\<open>1e-6\<close> is a \<^verbatim>\<open>double\<close>, \<open>4722366482869645 \<times> 2\<^sup>-\<^sup>7\<^sup>2\<close>; the \<^verbatim>\<open>float\<close> is
  compared with it exactly.
\<close>

definition f32_abs_lt_1em6 :: "u32 \<Rightarrow> bool" where
  "f32_abs_lt_1em6 w \<longleftrightarrow>
     \<not> f32_is_nan w \<and> \<not> f32_is_inf w \<and> f32_mag w < 4722366482869645 * 2 ^ 77"

definition f32_of_int :: "u32 \<Rightarrow> u32" where
  "f32_of_int c = f32_round (sint c < 0) (nat \<bar>sint c\<bar> * 2 ^ 149) 1"

text \<open>
  \<^verbatim>\<open>std::round\<close> rounds halves away from zero.  The conversion to \<^verbatim>\<open>int\<close> of a NaN, of an
  infinity and of a value that no \<^verbatim>\<open>int\<close> holds is undefined in C++; the conversion
  instruction of x86-64 (\<^verbatim>\<open>cvttss2si\<close>) gives \<open>0x80000000\<close> for them.
\<close>

definition f32_round_to_int :: "u32 \<Rightarrow> u32" where
  "f32_round_to_int w =
     (if f32_is_nan w \<or> f32_is_inf w then 2147483648
      else (let r = (2 * int (f32_mag w) + 2 ^ 149) div 2 ^ 150;
                v = (if f32_sign w then - r else r)
            in if - 2147483648 \<le> v \<and> v < 2147483648 then of_int v else 2147483648))"

definition x86_64_float_ops :: "u32 float_ops" where
  "x86_64_float_ops =
     \<lparr>f_of_int = f32_of_int, f_zero = 0, f_one = 1065353216, f_255 = 1132396544,
      f_add = f32_add, f_sub = f32_sub, f_mul = f32_mul, f_div = f32_div,
      f_less = f32_less, f_abs_lt_1em6 = f32_abs_lt_1em6,
      f_round_to_int = f32_round_to_int, f_bits = (\<lambda>w. w)\<rparr>"

subsection \<open>Writes\<close>

text \<open>The accesses that write memory, in the order the program makes them.\<close>

datatype memory_order = memory_order_relaxed | memory_order_acquire | memory_order_release

datatype access =
    Memcpy u64 "u8 list"
  | Store8 u64 u8
  | Store64 u64 u64
  | AtomicStore64 u64 u64 memory_order
  | FetchAdd64 u64 u64 memory_order

text \<open>
  \<open>Memcpy dest bytes\<close> is \<^verbatim>\<open>std::memcpy\<close> to \<open>dest\<close>; \<open>Store8\<close> and \<open>Store64\<close> are
  plain (non-atomic) assignments; \<open>AtomicStore64\<close> is \<^verbatim>\<open>std::atomic_ref::store\<close> and
  \<open>FetchAdd64\<close> is \<^verbatim>\<open>std::atomic_ref::fetch_add\<close>, with their memory order.
\<close>

definition store_bytes :: "memory \<Rightarrow> u64 \<Rightarrow> u8 list \<Rightarrow> memory" where
  "store_bytes m a bs = (\<lambda>x. if unat (x - a) < length bs then bs ! unat (x - a) else m x)"

definition bytes32 :: "u32 \<Rightarrow> u8 list" where
  "bytes32 w = [ucast w, ucast (drop_bit 8 w), ucast (drop_bit 16 w), ucast (drop_bit 24 w)]"

type_synonym writer = "memory \<times> access list"

definition do_memcpy :: "u64 \<Rightarrow> u8 list \<Rightarrow> writer \<Rightarrow> writer" where
  "do_memcpy dest bs w = (store_bytes (fst w) dest bs, snd w @ [Memcpy dest bs])"

definition do_store8 :: "u64 \<Rightarrow> u8 \<Rightarrow> writer \<Rightarrow> writer" where
  "do_store8 a v w = ((fst w)(a := v), snd w @ [Store8 a v])"

definition do_store64 :: "u64 \<Rightarrow> u64 \<Rightarrow> writer \<Rightarrow> writer" where
  "do_store64 a v w = (store64 (fst w) a v, snd w @ [Store64 a v])"

definition do_fetch_add :: "u64 \<Rightarrow> u64 \<Rightarrow> memory_order \<Rightarrow> writer \<Rightarrow> writer" where
  "do_fetch_add a n ord w = (store64 (fst w) a (load64 (fst w) a + n), snd w @ [FetchAdd64 a n ord])"

subsection \<open>Faults\<close>

text \<open>
  The arena is the \<open>GHOST_SPACE_SIZE\<close> bytes from the base address.  \<^verbatim>\<open>ghost_signal_handler\<close>
  commits the page of a fault at an address \<open>a\<close> with
  \<^verbatim>\<open>base && fault_val >= base_val && fault_val < end_val\<close>, and the access is retried; at
  any other address it restores the default action of the signal, and the process ends at
  the retried access.  The arena is the only memory that \<^verbatim>\<open>ProcessDocument\<close> is given: the
  model takes every access outside of it as such a fault, at the first byte of the
  access that lies outside.
\<close>

datatype fault = Unhandled_fault u64

definition in_arena :: "MemoryManager \<Rightarrow> u64 \<Rightarrow> bool" where
  "in_arena mm a \<longleftrightarrow>
     m_base_addr mm \<noteq> 0 \<and> m_base_addr mm \<le> a \<and> a < m_base_addr mm + GHOST_SPACE_SIZE"

definition first_fault :: "MemoryManager \<Rightarrow> u64 \<Rightarrow> nat \<Rightarrow> u64 option" where
  "first_fault mm a n = find (\<lambda>x. \<not> in_arena mm x) (map (\<lambda>i. a + of_nat i) [0..<n])"

text \<open>
  \<open>arena_access mm a n f r\<close>: after the accesses \<open>r\<close>, the access \<open>f\<close> to the \<open>n\<close> bytes
  at \<open>a\<close>.  Nothing runs after a fault.
\<close>

definition arena_access ::
    "MemoryManager \<Rightarrow> u64 \<Rightarrow> nat \<Rightarrow> (writer \<Rightarrow> writer) \<Rightarrow> fault + writer \<Rightarrow> fault + writer" where
  "arena_access mm a n f r =
     (case r of
        Inl e \<Rightarrow> Inl e
      | Inr w \<Rightarrow>
          (case first_fault mm a n of
             Some x \<Rightarrow> Inl (Unhandled_fault x)
           | None \<Rightarrow> Inr (f w)))"

subsection \<open>ProcessDocument\<close>

definition VECTOR_DIM :: nat where "VECTOR_DIM = 256"

text \<open>The hashing vectorizer: one pass over the term counts, in their iteration order.\<close>

definition vectorize :: "'f float_ops \<Rightarrow> (u32 \<times> u32) list \<Rightarrow> 'f list" where
  "vectorize fo term_counts =
     foldl (\<lambda>dense_vec (term_id, count).
              let bucket = unat term_id mod VECTOR_DIM
              in dense_vec[bucket := f_add fo (dense_vec ! bucket) (f_of_int fo count)])
           (replicate VECTOR_DIM (f_zero fo)) term_counts"

definition min_max :: "'f float_ops \<Rightarrow> 'f list \<Rightarrow> 'f \<times> 'f" where
  "min_max fo dense_vec =
     foldl (\<lambda>(min_val, max_val) v.
              (if f_less fo v min_val then v else min_val,
               if f_less fo max_val v then v else max_val))
           (dense_vec ! 0, dense_vec ! 0) dense_vec"

text \<open>
  One lane.  \<^verbatim>\<open>result\<close> is an \<^verbatim>\<open>int\<close>; the subtraction wraps in the model where it
  overflows in the program.
\<close>

definition quantize_lane :: "'f float_ops \<Rightarrow> 'f \<Rightarrow> 'f \<Rightarrow> 'f \<Rightarrow> u8" where
  "quantize_lane fo min_val max_val v =
     (let norm = f_div fo (f_sub fo v min_val) (f_sub fo max_val min_val);
          scaled = f_mul fo norm (f_255 fo);
          result = f_round_to_int fo scaled - 128;
          result1 = (if sint result < - 128 then - 128 else result);
          result2 = (if sint result1 > 127 then 127 else result1)
      in ucast result2)"

function quantize_loop ::
    "MemoryManager \<Rightarrow> 'f float_ops \<Rightarrow> 'f list \<Rightarrow> 'f \<Rightarrow> 'f \<Rightarrow> u64 \<Rightarrow> nat \<Rightarrow>
       fault + writer \<Rightarrow> fault + writer" where
  "quantize_loop mm fo dense_vec min_val max_val q_dest i w =
     (if i < VECTOR_DIM
      then (let v = (if i < length dense_vec then dense_vec ! i else f_zero fo)
            in quantize_loop mm fo dense_vec min_val max_val q_dest (i + 1)
                 (arena_access mm (q_dest + of_nat i) 1
                    (do_store8 (q_dest + of_nat i) (quantize_lane fo min_val max_val v)) w))
      else w)"
  by pat_completeness auto
termination
  by (relation "measure (\<lambda>(mm, fo, dense_vec, min_val, max_val, q_dest, i, w). VECTOR_DIM - i)")
    auto

declare quantize_loop.simps [simp del]

text \<open>
  \<open>tokenize\<close> stands for \<^verbatim>\<open>m_tokenizer.Tokenize\<close>: the term counts of the document, in
  the order the loop over the map visits them.  The result is the manager with the memory
  as written and the write accesses in program order, or the fault that ended the
  process.  The first access is the read of \<^verbatim>\<open>header->head_offset\<close>.
\<close>

definition ProcessDocument ::
    "'f float_ops \<Rightarrow> (string \<Rightarrow> (u32 \<times> u32) list) \<Rightarrow> string \<Rightarrow> MemoryManager \<Rightarrow>
       fault + MemoryManager \<times> access list" where
  "ProcessDocument fo tokenize content mm =
     (let term_counts = tokenize content
      in if term_counts = [] then Inr (mm, [])
         else
           (let dense_vec = vectorize fo term_counts;
                base = m_base_addr mm
            in if base = 0 then Inr (mm, [])
               else
                 (let header = base;
                      w0 = arena_access mm (header + 16) 8 (\<lambda>w. w) (Inr (ghost mm, []));
                      current_offset = head_offset (ghost mm) header;
                      entry_size = 4 + 4 + of_nat VECTOR_DIM;
                      dest = base + current_offset;
                      (min_val, max_val) = min_max fo dense_vec;
                      scale0 = f_div fo (f_sub fo max_val min_val) (f_255 fo);
                      bias = min_val;
                      scale = (if f_abs_lt_1em6 fo (f_sub fo max_val min_val) then f_one fo
                               else scale0);
                      w1 = arena_access mm dest 4 (do_memcpy dest (bytes32 (f_bits fo scale))) w0;
                      dest1 = dest + 4;
                      w2 = arena_access mm dest1 4 (do_memcpy dest1 (bytes32 (f_bits fo bias))) w1;
                      dest2 = dest1 + 4;
                      q_dest = dest2;
                      w3 = quantize_loop mm fo dense_vec min_val max_val q_dest 0 w2;
                      w4 = arena_access mm (header + 16) 8
                             (\<lambda>w. do_store64 (header + 16)
                                    (head_offset (fst w) header + entry_size) w) w3;
                      w5 = arena_access mm (header + 8) 8
                             (do_fetch_add (header + 8) 1 memory_order_release) w4
                  in (case w5 of
                        Inl e \<Rightarrow> Inl e
                      | Inr w \<Rightarrow> Inr (mm\<lparr>ghost := fst w\<rparr>, snd w)))))"

text \<open>The write accesses of a run, when it ends without a fault.\<close>

definition accesses :: "fault + MemoryManager \<times> access list \<Rightarrow> access list option" where
  "accesses r = (case r of Inl e \<Rightarrow> None | Inr (mm, acc) \<Rightarrow> Some acc)"

text \<open>
  The write accesses of one record at \<open>dest\<close>, as the specification lists them: scale,
  bias, then the 256 lanes.
\<close>

definition record_writes :: "'f float_ops \<Rightarrow> (u32 \<times> u32) list \<Rightarrow> u64 \<Rightarrow> access list" where
  "record_writes fo term_counts dest =
     (let dense_vec = vectorize fo term_counts;
          min_val = fst (min_max fo dense_vec);
          max_val = snd (min_max fo dense_vec);
          scale = (if f_abs_lt_1em6 fo (f_sub fo max_val min_val) then f_one fo
                   else f_div fo (f_sub fo max_val min_val) (f_255 fo))
      in [Memcpy dest (bytes32 (f_bits fo scale)), Memcpy (dest + 4) (bytes32 (f_bits fo min_val))] @
         map (\<lambda>i. Store8 (dest + 8 + of_nat i) (quantize_lane fo min_val max_val (dense_vec ! i)))
             [0..<256])"

text \<open>
  The term counts of a document with 256 terms, one in each bucket, each once: its dense
  vector is flat.
\<close>

definition flat_counts :: "(u32 \<times> u32) list" where
  "flat_counts = map (\<lambda>i. (of_nat i, 1)) [0..<256]"


section \<open>Blocks in address order\<close>

text \<open>
  The blocks of the heap in address order, as the boundary tags give them: start at
  \<^verbatim>\<open>m_first_block_offset\<close>, read offset, size and free bit from the header, continue at
  offset + size, stop at the end of the region.  Every block of a well-formed heap is at
  least 64 bytes, so one step more than that many bounds the walk.
\<close>

fun blocks_from :: "nat \<Rightarrow> SlabAllocator \<Rightarrow> u64 \<Rightarrow> (u64 \<times> u64 \<times> bool) list" where
  "blocks_from 0 s off = []"
| "blocks_from (Suc n) s off =
     (if off < m_total_size s + m_base_offset s
      then (off, GetSize (heap s) (GetPtr s off), IsFree (heap s) (GetPtr s off)) #
           blocks_from n s (off + GetSize (heap s) (GetPtr s off))
      else [])"

definition heap_blocks :: "SlabAllocator \<Rightarrow> (u64 \<times> u64 \<times> bool) list" where
  "heap_blocks s = blocks_from (unat (m_total_size s) div 64 + 1) s (m_first_block_offset s)"

text \<open>Two blocks adjacent in address order are both free.\<close>

fun adjacent_free :: "(u64 \<times> u64 \<times> bool) list \<Rightarrow> bool" where
  "adjacent_free (a # b # bs) \<longleftrightarrow> (snd (snd a) \<and> snd (snd b)) \<or> adjacent_free (b # bs)"
| "adjacent_free bs \<longleftrightarrow> False"

text \<open>
  A sequence of calls on a fresh 512-byte slab at address 65536 with base offset 64:
  every \<open>Free\<close> is given an offset that an earlier \<open>Allocate\<close> returned and that has not
  been freed since.  \<open>2 ^ 64 - 64\<close> is a \<^verbatim>\<open>size_t\<close> for which the computation of the
  block size in \<open>Allocate\<close> wraps around.
\<close>

definition overflow_run :: "SlabAllocator \<Rightarrow> SlabAllocator option" where
  "overflow_run s0 =
     (case Allocate 100 s0 of None \<Rightarrow> None | Some (p1, s1) \<Rightarrow>
     (case Allocate 18446744073709551552 s1 of None \<Rightarrow> None | Some (p2, s2) \<Rightarrow>
     (case Allocate 18446744073709551552 (Free p1 s2) of None \<Rightarrow> None | Some (p3, s4) \<Rightarrow>
     (case Allocate 1 s4 of None \<Rightarrow> None | Some (p4, s5) \<Rightarrow>
        Some (Free p3 (Free p2 s5))))))"

definition ovf_cfg :: "SlabAllocator \<Rightarrow> bool" where
  "ovf_cfg s \<longleftrightarrow>
     m_base s = 65536 \<and> m_total_size s = 512 \<and> m_base_offset s = 64 \<and>
     m_first_block_offset s = 64"

section \<open>Properties of the ring buffer\<close>

lemma and_cap_mod: "(x::u64) AND (2 ^ k - 1) = x mod 2 ^ k"
  by (metis mask_eq_decr_exp take_bit_eq_mask take_bit_eq_mod)

lemma unat_cap: "k < 64 \<Longrightarrow> unat ((2::u64) ^ k) = 2 ^ k"
proof -
  assume k: "k < 64"
  have "(2::nat) ^ k < 2 ^ 64" using k by (intro power_strict_increasing) auto
  moreover have "(2::u64) ^ k = of_nat (2 ^ k)" by simp
  ultimately show ?thesis by (simp add: unat_of_nat del: of_nat_power of_nat_numeral)
qed

lemma and_cap_less: "k < 64 \<Longrightarrow> unat ((x::u64) AND (2 ^ k - 1)) < 2 ^ k"
  by (simp add: and_cap_mod unat_mod unat_cap)

lemma unat_next_index:
  assumes "k < 64" "unat (x::u64) < 2 ^ k"
  shows "unat ((x + 1) AND (2 ^ k - 1)) = (unat x + 1) mod 2 ^ k"
proof -
  have "(2::nat) ^ k \<le> 2 ^ 63" using assms(1) by (intro power_increasing) auto
  then have "unat x + 1 < 2 ^ 64" using assms(2) by simp
  then have "unat (x + 1) = unat x + 1"
    by (simp add: unat_word_ariths)
  then show ?thesis using assms(1) by (simp add: and_cap_mod unat_mod unat_cap)
qed

lemma ring_reachable_inv:
  assumes "k < 64" "ring_reachable (2 ^ k) d s"
  shows "ring_inv k s"
  using assms(2)
proof (induction rule: ring_reachable.induct)
  case reach_new
  then show ?case using assms(1) by (simp add: ring_inv_def ring_new_def unat_cap)
next
  case (reach_push s v)
  then show ?case using assms(1) and_cap_less[OF assms(1)]
    by (simp add: ring_inv_def push_def Let_def)
next
  case (reach_pop s)
  then show ?case using assms(1) and_cap_less[OF assms(1)]
    by (simp add: ring_inv_def pop_def Let_def)
qed

lemma replicate_4: "replicate 4 x = [x, x, x, x]"
  by (simp add: numeral_eq_Suc)

text \<open>
  C1 (as stated).  With capacity 4 the buffer holds at most three values, because
  \<open>push\<close> refuses when the next tail index would meet the head.  After
  push 1, 2, 3, pop, push 4 the buffer holds 2, 3, 4, so push 5 already returns false:
  the results the specification lists are not the results of the code.
\<close>

theorem scenario_claimed_counterexample:
  "ring_run 4 scenario_ops (ring_new 4 0) \<noteq> scenario_claimed"
  by (simp add: scenario_ops_def scenario_claimed_def ring_new_def push_def pop_def Let_def
      replicate_4)

text \<open>
  C1 (amended).  For a buffer of capacity 4 starting empty: push 1, 2, 3 succeed; pop
  returns 1; push 4 succeeds; push 5 and push 6 return false (full); the next three pops
  return 2, 3, 4; push 7, 8, 9 succeed; the next five pops return 7, 8, 9, None, None; and
  a final pop returns None.  This holds whatever the slots held at construction.
\<close>

theorem scenario_capacity_4:
  "ring_run 4 scenario_ops (ring_new 4 d) = scenario_actual"
  by (simp add: scenario_ops_def scenario_actual_def ring_new_def push_def pop_def Let_def
      replicate_4)

text \<open>
  C2.  In every state reachable by push and pop calls, for a capacity \<open>C = 2 ^ k\<close>,
  \<open>push v\<close> returns false exactly when \<open>(tail + 1) mod C = head\<close>; in every other
  state the tail index is a slot of the buffer, and push stores \<open>v\<close> there, sets the
  tail to \<open>(tail + 1) mod C\<close>, leaves the head alone and returns true.
\<close>

theorem push_full_iff:
  assumes "k < 64" "cap = 2 ^ k" "ring_reachable cap d s"
  shows "(fst (push cap v s) = False \<longleftrightarrow>
            (unat (m_tail s) + 1) mod unat cap = unat (m_head s)) \<and>
         ((unat (m_tail s) + 1) mod unat cap \<noteq> unat (m_head s) \<longrightarrow>
            unat (m_tail s) < length (m_buffer s) \<and>
            push cap v s =
              (True, s\<lparr>m_buffer := (m_buffer s)[unat (m_tail s) := v],
                        m_tail := of_nat ((unat (m_tail s) + 1) mod unat cap)\<rparr>))"
proof -
  have inv: "ring_inv k s" using assms ring_reachable_inv[of k d s] by simp
  have nx: "unat ((m_tail s + 1) AND (cap - 1)) = (unat (m_tail s) + 1) mod unat cap"
    using inv assms(1,2) unat_next_index[of k "m_tail s"] by (simp add: ring_inv_def unat_cap)
  have eq: "((m_tail s + 1) AND (cap - 1) = m_head s) \<longleftrightarrow>
            (unat (m_tail s) + 1) mod unat cap = unat (m_head s)"
    using nx by (simp add: word_unat_eq_iff)
  have w: "(m_tail s + 1) AND (cap - 1) = of_nat ((unat (m_tail s) + 1) mod unat cap)"
  proof -
    have "of_nat (unat ((m_tail s + 1) AND (cap - 1))) = (m_tail s + 1) AND (cap - 1)"
      by simp
    then show ?thesis by (simp only: nx)
  qed
  show ?thesis
    using eq w inv assms(1,2) by (simp add: push_def Let_def ring_inv_def unat_cap)
qed

theorem push_full_iff_witness:
  "(fst (push 4 (9::int) (snd (push 4 7 (ring_new 4 0)))) = False \<longleftrightarrow> False) \<and>
   push 4 (9::int) (snd (push 4 7 (ring_new 4 0))) =
     (True, \<lparr>m_head = 0, m_tail = 2, m_buffer = [7, 9, 0, 0]\<rparr>)"
  using push_full_iff[of 2 4 0 "snd (push 4 7 (ring_new 4 (0::int)))" 9,
      OF _ _ reach_push[OF reach_new]]
  by (simp add: push_def ring_new_def Let_def replicate_4)


section \<open>Loads and stores\<close>

lemma byte_of: "(ucast (ucast (w::u64) :: u8) :: u64) = take_bit 8 w"
  by (rule bit_eqI) (auto simp: bit_simps)

lemma glue_byte: "take_bit k (v::u64) OR push_bit k (take_bit 8 (drop_bit k v)) = take_bit (k + 8) v"
  by (rule bit_eqI) (auto simp: bit_simps)

lemma glue_all: "take_bit 8 (v::u64) OR push_bit 8 (take_bit 8 (drop_bit 8 v)) OR push_bit 16 (take_bit 8 (drop_bit 16 v))
   OR push_bit 24 (take_bit 8 (drop_bit 24 v)) OR push_bit 32 (take_bit 8 (drop_bit 32 v)) OR push_bit 40 (take_bit 8 (drop_bit 40 v))
   OR push_bit 48 (take_bit 8 (drop_bit 48 v)) OR push_bit 56 (take_bit 8 (drop_bit 56 v)) = v"
proof -
  have e: "take_bit 64 v = v" using take_bit_length_eq[of v] by simp
  have s: "take_bit 8 v OR push_bit 8 (take_bit 8 (drop_bit 8 v)) = take_bit 16 v"
    "take_bit 16 v OR push_bit 16 (take_bit 8 (drop_bit 16 v)) = take_bit 24 v"
    "take_bit 24 v OR push_bit 24 (take_bit 8 (drop_bit 24 v)) = take_bit 32 v"
    "take_bit 32 v OR push_bit 32 (take_bit 8 (drop_bit 32 v)) = take_bit 40 v"
    "take_bit 40 v OR push_bit 40 (take_bit 8 (drop_bit 40 v)) = take_bit 48 v"
    "take_bit 48 v OR push_bit 48 (take_bit 8 (drop_bit 48 v)) = take_bit 56 v"
    "take_bit 56 v OR push_bit 56 (take_bit 8 (drop_bit 56 v)) = take_bit 64 v"
    using glue_byte[of 8 v] glue_byte[of 16 v] glue_byte[of 24 v] glue_byte[of 32 v] glue_byte[of 40 v] glue_byte[of 48 v] glue_byte[of 56 v]
    by simp_all
  show ?thesis
    by (simp only: or.assoc[symmetric] s e)
qed

lemma load64_store64_same: "load64 (store64 m a v) a = v"
  unfolding load64_def store64_def
  by (simp add: byte_of glue_all)

lemma unat_neg_u64:
  assumes "(d::u64) \<noteq> 0" shows "unat (- d) = 2^64 - unat d"
proof -
  have "(unat d + unat (- d)) mod 2^64 = 0"
    using unat_word_ariths(1)[of d "- d"] by simp
  then obtain k where k: "unat d + unat (- d) = 2^64 * k"
    by (auto simp: mod_eq_0_iff_dvd elim!: dvdE)
  have b: "unat d < 2^64" "unat (- d) < 2^64"
    using unsigned_less[of d] unsigned_less[of "- d"] by simp_all
  have p: "0 < unat d" using assms by (simp add: unat_gt_0)
  have "k \<noteq> 0" using k p by auto
  moreover have "k < 2"
  proof (rule ccontr)
    assume "\<not> k < 2"
    then have "(2::nat)^64 * 2 \<le> 2^64 * k" by (intro mult_le_mono2) simp
    then show False using k b by simp
  qed
  ultimately have "k = 1" by simp
  then show ?thesis using k by simp
qed
lemma far_apart: 
  assumes "8 \<le> d" "8 \<le> - d" "j < 8" shows "\<not> (d + j < (8::u64))"
proof -
  have n: "8 \<le> unat d" using assms(1) by (simp add: word_le_nat_alt)
  then have "d \<noteq> 0" by auto
  then have "unat (- d) = 2^64 - unat d" by (rule unat_neg_u64)
  moreover have "8 \<le> unat (- d)" using assms(2) by (simp add: word_le_nat_alt)
  ultimately have "unat d + 8 \<le> 2^64" by simp
  moreover have "unat j < 8" using assms(3) by (simp add: word_less_nat_alt)
  ultimately have "unat (d + j) = unat d + unat j" by (simp add: unat_add_lem[THEN iffD1])
  then show ?thesis using n by (simp add: word_less_nat_alt)
qed

lemma load64_store64_disj:
  assumes "8 \<le> b - a" "8 \<le> a - b"
  shows "load64 (store64 m a v) b = load64 m b"
proof -
  have ne: "\<not> (b + j - a < 8)" if "j < 8" for j :: u64
    using far_apart[of "b - a" j] assms that by (simp add: algebra_simps)
  have ne0: "\<not> (b - a < 8)" using ne[of 0] by simp
  show ?thesis
    unfolding load64_def store64_def
    using ne0 ne[of 1] ne[of 2] ne[of 3] ne[of 4] ne[of 5] ne[of 6] ne[of 7]
    by simp
qed


text \<open>
  The two rewrite rules with which a load is evaluated through a chain of stores: the
  side conditions compare addresses by their difference, which the simplifier computes
  whatever the order of the summands.
\<close>

lemma ld_same: "a' - a = 0 \<Longrightarrow> load64 (store64 m a v) a' = v"
  by (simp add: load64_store64_same)

lemma ld_disj:
  "8 \<le> a' - a \<Longrightarrow> 8 \<le> a - a' \<Longrightarrow> load64 (store64 m a v) a' = load64 m a'"
  by (simp add: load64_store64_disj)

lemma ld_known: "load64 m a = v \<Longrightarrow> a' - a = 0 \<Longrightarrow> load64 m a' = v"
  by simp


section \<open>Properties of the slab allocator\<close>

lemmas slab_ops = Allocate_def Free_def take_block_def InsertHead_def RemoveFromFreeList_def
  GetPtr_def GetPayload_def GetFooter_def UpdateFooter_def GetSize_def IsFree_def Set_hdr_def
  SetFree_def SetSize_def SetUsed_def next_offset_def prev_offset_def set_next_offset_def
  set_prev_offset_def ALIGNMENT_def sizeof_BlockHeader_def sizeof_BlockFooter_def FREE_MASK_def
  SIZE_MASK_def

lemma first_fit_null: "first_fit r 0 s = Some (0, s)"
  by (subst first_fit.simps) simp

lemma first_fit_hit:
  "c \<noteq> 0 \<Longrightarrow> r \<le> GetSize (heap s) (GetPtr s c) \<Longrightarrow> first_fit r c s = Some (take_block r c s)"
  by (subst first_fit.simps) (simp add: Let_def)

lemma first_fit_skip:
  "c \<noteq> 0 \<Longrightarrow> \<not> r \<le> GetSize (heap s) (GetPtr s c) \<Longrightarrow>
   first_fit r c s = first_fit r (next_offset (heap s) (GetPayload (GetPtr s c))) s"
  by (subst first_fit.simps) (simp add: Let_def)

lemma aligned_base: 
  assumes "b AND 63 = 0" shows "(b + 64 - 1) AND NOT 63 = (b::u64)"
proof -
  have e: "b + 64 - 1 = b + 63" by simp
  have a: "b + 63 = b OR 63" using assms by (rule disjunctive_add_eq_or)
  have c: "(b OR 63) AND NOT 63 = b AND NOT 63"
    by (simp add: bit.conj_disj_distrib2)
  have d: "b AND NOT 63 = b"
  proof -
    have "b = (b AND 63) OR (b AND NOT 63)"
      by (metis and.right_neutral bit.conj_disj_distrib bit.disj_cancel_right)
    then show ?thesis using assms by simp
  qed
  show ?thesis by (simp only: e a c d)
qed

lemma unat_ofs_add:
  assumes "unat (ofs::u64) + unat k < 2^64"
  shows "unat (ofs + k) = unat ofs + unat k"
  using assms by (simp add: unat_add_lem[THEN iffD1])

lemma req_100: "Allocate 100 s = first_fit 256 (m_free_list_head_offset s) s"
  by (simp add: Allocate_def Let_def sizeof_BlockHeader_def sizeof_BlockFooter_def ALIGNMENT_def)

text \<open>
  The scenario of C5 on a region at any address.  The first block starts \<open>adjustment b\<close>
  bytes into the region and its size \<open>E\<close> is 1 MiB less these bytes, made even; the steps
  below follow the headers, footers and list nodes the scenario reads.
\<close>

lemma far_E:
  assumes "first_block_size E" "unat (c::u64) + 8 \<le> 1048512"
  shows "8 \<le> E - c" "8 \<le> c - E"
proof -
  have E: "1048512 \<le> unat E" "unat E \<le> 1048576" using assms(1) by (simp_all add: first_block_size_def)
  have le: "c \<le> E" using assms(2) E by (simp add: word_le_nat_alt)
  have d: "unat (E - c) = unat E - unat c" using le by (simp add: unat_sub)
  show "8 \<le> E - c" using d assms(2) E by (simp add: word_le_nat_alt)
  have nz: "E - c \<noteq> 0" using d assms(2) E by (auto simp: word_unat_eq_iff)
  have "c - E = - (E - c)" by simp
  then have "unat (c - E) = 2 ^ 64 - unat (E - c)" using unat_neg_u64[OF nz] by simp
  then show "8 \<le> c - E" using d assms(2) E by (simp add: word_le_nat_alt)
qed

lemma even_and_not_1: "even x \<Longrightarrow> (x::u64) AND NOT 1 = x"
  by (rule bit_eqI) (auto simp: bit_simps bit_0)

lemma even_or_1_and_not_1: "even x \<Longrightarrow> ((x::u64) OR 1) AND NOT 1 = x"
  by (rule bit_eqI) (auto simp: bit_simps bit_0)

lemma even_and_m2: "even x \<Longrightarrow> (x::u64) AND - 2 = x"
  using even_and_not_1[of x] by simp

lemma even_or_1_and_m2: "even x \<Longrightarrow> ((x::u64) OR 1) AND - 2 = x"
  using even_or_1_and_not_1[of x] by simp

lemma even_or_1_and_1: "even x \<Longrightarrow> ((x::u64) OR 1) AND 1 = 1"
  by (rule bit_eqI) (auto simp: bit_simps bit_0)

lemma first_block_even:
  assumes "first_block_size E" "even (d::u64)"
  shows "((E - d) OR 1) AND - 2 = E - d" "(E - d) AND - 2 = E - d" "((E - d) OR 1) AND 1 = 1"
proof -
  have "even (E - d)" using assms by (simp add: first_block_size_def)
  then show "((E - d) OR 1) AND - 2 = E - d" "(E - d) AND - 2 = E - d"
    "((E - d) OR 1) AND 1 = 1"
    by (simp_all add: even_or_1_and_m2 even_and_m2 even_or_1_and_1)
qed

lemma first_block_cmp:
  assumes "first_block_size E" "unat (d::u64) \<le> 768" "unat (c::u64) \<le> 1024"
  shows "c \<le> E - d"
proof -
  have E: "1048512 \<le> unat E" "unat E \<le> 1048576" using assms(1) by (simp_all add: first_block_size_def)
  have le: "d \<le> E" using assms(2) E by (simp add: word_le_nat_alt)
  have d: "unat (E - d) = unat E - unat d" using le by (simp add: unat_sub)
  show ?thesis using d assms E by (simp add: word_le_nat_alt)
qed

lemma ofs_facts:
  assumes "unat (ofs::u64) + 1048576 < 2^64" "ofs + adj \<noteq> 0" "unat (adj::u64) < 64"
  shows "ofs + adj + 256 \<noteq> 0" "ofs + adj + 512 \<noteq> 0" "ofs + adj + 768 \<noteq> 0"
    "ofs + adj + 512 < 1048576 + ofs" "ofs + adj < ofs + adj + 256" "ofs + adj + 320 \<noteq> 0"
    "256 + (ofs + adj) \<noteq> 0" "512 + (ofs + adj) \<noteq> 0" "768 + (ofs + adj) \<noteq> 0"
    "512 + (ofs + adj) < 1048576 + ofs" "ofs + adj < 256 + (ofs + adj)"
    "320 + (ofs + adj) \<noteq> 0"
proof -
  have a: "unat (ofs + adj) = unat ofs + unat adj"
    using assms(1,3) by (intro unat_ofs_add) simp
  have u: "unat (ofs + adj + 256) = unat ofs + unat adj + 256"
    "unat (ofs + adj + 512) = unat ofs + unat adj + 512"
    "unat (ofs + adj + 768) = unat ofs + unat adj + 768"
    "unat (ofs + adj + 320) = unat ofs + unat adj + 320"
    "unat (ofs + 1048576) = unat ofs + 1048576"
    using assms(1,3) a unat_ofs_add[of "ofs + adj" 256] unat_ofs_add[of "ofs + adj" 512]
      unat_ofs_add[of "ofs + adj" 768] unat_ofs_add[of "ofs + adj" 320]
      unat_ofs_add[of ofs 1048576]
    by simp_all
  show "ofs + adj + 256 \<noteq> 0" "ofs + adj + 512 \<noteq> 0" "ofs + adj + 768 \<noteq> 0"
    "ofs + adj + 320 \<noteq> 0"
    using u by (auto simp: word_unat_eq_iff)
  show "ofs + adj + 512 < 1048576 + ofs" "ofs + adj < ofs + adj + 256"
    using u a assms(3) by (simp_all add: word_less_nat_alt add.commute[of 1048576 ofs])
  then show "512 + (ofs + adj) < 1048576 + ofs" "ofs + adj < 256 + (ofs + adj)"
    by (simp_all add: add.commute)
  show "256 + (ofs + adj) \<noteq> 0" "512 + (ofs + adj) \<noteq> 0" "768 + (ofs + adj) \<noteq> 0"
    "320 + (ofs + adj) \<noteq> 0"
    using u by (auto simp: word_unat_eq_iff add.commute)
qed

lemma c5_alloc1:
  assumes "unat (ofs::u64) + 1048576 < 2^64" "ofs + adj \<noteq> 0" "unat adj < 64" "first_block_size E"
    and "slab_1MiB b ofs adj s" "m_free_list_head_offset s = ofs + adj"
    and "load64 (heap s) (b + adj) = E OR 1" "load64 (heap s) (b + adj + 64) = 0"
      "load64 (heap s) (b + adj + 72) = 0"
  shows "\<exists>s'. Allocate 100 s = Some (ofs + adj + 64, s') \<and> slab_1MiB b ofs adj s' \<and>
     m_free_list_head_offset s' = ofs + adj + 256 \<and>
     load64 (heap s') (b + adj + 248) = 256 \<and> load64 (heap s') (b + adj + 256) = (E - 256) OR 1 \<and>
     load64 (heap s') (b + adj + 320) = 0 \<and> load64 (heap s') (b + adj + 328) = 0"
proof -
  have ev: "even E" using assms(4) by (simp add: first_block_size_def)
  note te = first_block_even[OF assms(4), of 0, simplified] first_block_even[OF assms(4), of 256, simplified]
  note fe = far_E[OF assms(4)]
  note k = assms(7-9)[THEN ld_known]
  note f = ofs_facts[OF assms(1-3)]
  note c = first_block_cmp[OF assms(4)]
  have gs: "GetSize (heap s) (GetPtr s (ofs + adj)) = E"
    using assms(5) by (simp add: GetSize_def GetPtr_def SIZE_MASK_def FREE_MASK_def slab_1MiB_def k
        even_or_1_and_m2[OF ev])
  have hit: "first_fit 256 (ofs + adj) s = Some (take_block 256 (ofs + adj) s)"
    using assms(2) c[of 0 256] by (intro first_fit_hit) (simp_all add: gs)
  have c1: "136 \<le> E - 256" using c[of 256 136] by simp
  show ?thesis
    unfolding req_100 assms(6) hit
    using assms(5,6) f
    apply (simp add: slab_ops Let_def ld_same ld_disj k slab_1MiB_def te c1 fe split del: if_split cong: if_weak_cong let_weak_cong)
    done
qed

lemma c5_alloc2:
  assumes "unat (ofs::u64) + 1048576 < 2^64" "ofs + adj \<noteq> 0" "unat adj < 64" "first_block_size E"
    and "slab_1MiB b ofs adj s" "m_free_list_head_offset s = ofs + adj + 256"
    and "load64 (heap s) (b + adj + 248) = 256" "load64 (heap s) (b + adj + 256) = (E - 256) OR 1"
      "load64 (heap s) (b + adj + 320) = 0" "load64 (heap s) (b + adj + 328) = 0"
  shows "\<exists>s'. Allocate 100 s = Some (ofs + adj + 320, s') \<and> slab_1MiB b ofs adj s' \<and>
     m_free_list_head_offset s' = ofs + adj + 512 \<and>
     load64 (heap s') (b + adj + 248) = 256 \<and> load64 (heap s') (b + adj + 256) = 256 \<and>
     load64 (heap s') (b + adj + 512) = (E - 512) OR 1 \<and>
     load64 (heap s') (b + adj + 576) = 0 \<and> load64 (heap s') (b + adj + 584) = 0"
proof -
  note te = first_block_even[OF assms(4), of 256, simplified] first_block_even[OF assms(4), of 512, simplified]
  note fe = far_E[OF assms(4)]
  note k = assms(7-)[THEN ld_known]
  note f = ofs_facts[OF assms(1-3)]
  note c = first_block_cmp[OF assms(4)]
  have gs: "GetSize (heap s) (GetPtr s (ofs + adj + 256)) = E - 256"
    using assms(5) by (simp add: GetSize_def GetPtr_def SIZE_MASK_def FREE_MASK_def slab_1MiB_def k te)
  have hit: "first_fit 256 (ofs + adj + 256) s = Some (take_block 256 (ofs + adj + 256) s)"
    using f c[of 256 256] by (intro first_fit_hit) (simp_all add: gs)
  have c1: "136 \<le> E - 512" using c[of 512 136] by simp
  show ?thesis
    unfolding req_100 assms(6) hit
    using assms(5,6) f
    by (simp add: slab_ops Let_def ld_same ld_disj k slab_1MiB_def te c1 fe split del: if_split
        cong: if_weak_cong let_weak_cong)
qed

lemma c5_alloc3:
  assumes "unat (ofs::u64) + 1048576 < 2^64" "ofs + adj \<noteq> 0" "unat adj < 64" "first_block_size E"
    and "slab_1MiB b ofs adj s" "m_free_list_head_offset s = ofs + adj + 512"
    and "load64 (heap s) (b + adj + 248) = 256" "load64 (heap s) (b + adj + 256) = 256"
      "load64 (heap s) (b + adj + 512) = (E - 512) OR 1"
      "load64 (heap s) (b + adj + 576) = 0" "load64 (heap s) (b + adj + 584) = 0"
  shows "\<exists>s'. Allocate 100 s = Some (ofs + adj + 576, s') \<and> slab_1MiB b ofs adj s' \<and>
     m_free_list_head_offset s' = ofs + adj + 768 \<and>
     load64 (heap s') (b + adj + 248) = 256 \<and> load64 (heap s') (b + adj + 256) = 256 \<and>
     load64 (heap s') (b + adj + 512) = 256 \<and>
     load64 (heap s') (b + adj + 832) = 0 \<and> load64 (heap s') (b + adj + 840) = 0"
proof -
  note te = first_block_even[OF assms(4), of 512, simplified] first_block_even[OF assms(4), of 768, simplified]
  note fe = far_E[OF assms(4)]
  note k = assms(7-)[THEN ld_known]
  note f = ofs_facts[OF assms(1-3)]
  note c = first_block_cmp[OF assms(4)]
  have gs: "GetSize (heap s) (GetPtr s (ofs + adj + 512)) = E - 512"
    using assms(5) by (simp add: GetSize_def GetPtr_def SIZE_MASK_def FREE_MASK_def slab_1MiB_def k te)
  have hit: "first_fit 256 (ofs + adj + 512) s = Some (take_block 256 (ofs + adj + 512) s)"
    using f c[of 512 256] by (intro first_fit_hit) (simp_all add: gs)
  have c1: "136 \<le> E - 768" using c[of 768 136] by simp
  show ?thesis
    unfolding req_100 assms(6) hit
    using assms(5,6) f
    by (simp add: slab_ops Let_def ld_same ld_disj k slab_1MiB_def te c1 fe split del: if_split
        cong: if_weak_cong let_weak_cong)
qed

lemma c5_free2:
  assumes "unat (ofs::u64) + 1048576 < 2^64" "ofs + adj \<noteq> 0" "unat adj < 64"
    and "slab_1MiB b ofs adj s" "m_free_list_head_offset s = ofs + adj + 768"
    and "load64 (heap s) (b + adj + 248) = 256" "load64 (heap s) (b + adj + 256) = 256"
      "load64 (heap s) (b + adj + 512) = 256"
      "load64 (heap s) (b + adj + 832) = 0" "load64 (heap s) (b + adj + 840) = 0"
  shows "slab_1MiB b ofs adj (Free (ofs + adj + 320) s) \<and>
     m_free_list_head_offset (Free (ofs + adj + 320) s) = ofs + adj + 256 \<and>
     load64 (heap (Free (ofs + adj + 320) s)) (b + adj + 256) = 257 \<and>
     load64 (heap (Free (ofs + adj + 320) s)) (b + adj + 320) = ofs + adj + 768 \<and>
     load64 (heap (Free (ofs + adj + 320) s)) (b + adj + 328) = 0"
proof -
  note k = assms(6-)[THEN ld_known]
  note f = ofs_facts[OF assms(1-3)]
  show ?thesis
    using assms(4,5) f
    by (simp add: slab_ops Let_def ld_same ld_disj k slab_1MiB_def split del: if_split
        cong: if_weak_cong let_weak_cong)
qed

lemma c5_alloc4:
  assumes "unat (ofs::u64) + 1048576 < 2^64" "ofs + adj \<noteq> 0" "unat adj < 64"
    and "slab_1MiB b ofs adj s" "m_free_list_head_offset s = ofs + adj + 256"
    and "load64 (heap s) (b + adj + 256) = 257" "load64 (heap s) (b + adj + 320) = ofs + adj + 768"
      "load64 (heap s) (b + adj + 328) = 0"
  shows "\<exists>s'. Allocate 100 s = Some (ofs + adj + 320, s')"
proof -
  note k = assms(6-)[THEN ld_known]
  note f = ofs_facts[OF assms(1-3)]
  have hit: "first_fit 256 (ofs + adj + 256) s = Some (take_block 256 (ofs + adj + 256) s)"
    using assms(4) f
    by (intro first_fit_hit)
       (simp_all add: GetSize_def GetPtr_def SIZE_MASK_def FREE_MASK_def slab_1MiB_def k)
  show ?thesis
    unfolding req_100 assms(5) hit
    using assms(4,5) f
    by (simp add: slab_ops Let_def ld_same ld_disj k slab_1MiB_def split del: if_split
        cong: if_weak_cong let_weak_cong)
qed


lemma and_not_eq_minus_and: "(x::u64) AND NOT y = x - (x AND y)"
proof -
  have "x - (x AND y) = x AND NOT (x AND y)"
    by (rule disjunctive_diff) (simp add: bit_and_iff)
  also have "\<dots> = x AND NOT y"
    by (rule bit_eqI) (auto simp: bit_simps)
  finally show ?thesis by simp
qed

lemma and_not_63: "(x::u64) AND NOT 63 = x - (x AND 63)"
  by (rule and_not_eq_minus_and)

lemma adjustment_eq: "adjustment b = 63 - ((b + 63) AND 63)"
proof -
  have "b + ALIGNMENT - 1 = b + 63" "ALIGNMENT - 1 = (63::u64)" by (simp_all add: ALIGNMENT_def)
  then have "adjustment b = ((b + 63) AND NOT 63) - b" by (simp only: adjustment_def)
  also have "\<dots> = (b + 63) - ((b + 63) AND 63) - b" by (simp only: and_not_63)
  also have "\<dots> = 63 - ((b + 63) AND 63)" by simp
  finally show ?thesis .
qed

lemma unat_adjustment: "unat (adjustment b) < 64"
proof -
  have le: "(b + 63) AND 63 \<le> 63" by (rule word_and_le1)
  then have "unat (adjustment b) = 63 - unat ((b + 63) AND 63)"
    unfolding adjustment_eq by (simp add: unat_sub)
  then show ?thesis by simp
qed

lemma first_block_size_effective: "first_block_size ((1048576 - adjustment b) AND - 2)"
proof -
  let ?x = "1048576 - adjustment b"
  have a: "unat (adjustment b) < 64" by (rule unat_adjustment)
  then have le: "adjustment b \<le> 1048576" by (simp add: word_le_nat_alt)
  have u: "unat ?x = 1048576 - unat (adjustment b)" using le by (simp add: unat_sub)
  have e: "?x AND - 2 = ?x - (?x AND 1)"
    using and_not_eq_minus_and[of ?x 1] by simp
  have l1: "?x AND 1 \<le> 1" by (rule word_and_le1)
  have l2: "?x AND 1 \<le> ?x" by (rule word_and_le2)
  have v: "unat (?x AND - 2) = unat ?x - unat (?x AND 1)"
    unfolding e using l2 by (simp add: unat_sub)
  have w: "unat (?x AND 1) \<le> 1" using l1 by (simp add: word_le_nat_alt)
  have ev: "even (?x AND - 2)" by (simp add: even_and_iff)
  show ?thesis unfolding first_block_size_def using ev u v w a by simp
qed

lemma effective_size_fits: "\<not> 1048576 - adjustment b < 72"
proof -
  have a: "unat (adjustment b) < 64" by (rule unat_adjustment)
  then have le: "adjustment b \<le> 1048576" by (simp add: word_le_nat_alt)
  have u: "unat (1048576 - adjustment b) = 1048576 - unat (adjustment b)"
    using le by (simp add: unat_sub)
  show ?thesis using u a by (simp add: word_less_nat_alt)
qed

lemma c5_init:
  fixes b ofs junk :: u64 and mem :: memory
  defines "s0 \<equiv> SlabAllocator_new mem b 1048576 ofs junk"
  shows "slab_1MiB b ofs (adjustment b) s0"
    "m_free_list_head_offset s0 = ofs + adjustment b"
    "load64 (heap s0) (b + adjustment b) = ((1048576 - adjustment b) AND - 2) OR 1"
    "load64 (heap s0) (b + adjustment b + 64) = 0"
    "load64 (heap s0) (b + adjustment b + 72) = 0"
proof -
  note te = first_block_even[OF first_block_size_effective[of b], of 0, simplified]
  note fe = far_E[OF first_block_size_effective[of b]]
  have "(63 + b AND - 64) - b = adjustment b"
    by (simp add: adjustment_def ALIGNMENT_def)
  then have a: "63 + b AND - 64 = b + adjustment b"
    by (simp add: algebra_simps)
  show "slab_1MiB b ofs (adjustment b) s0"
    "m_free_list_head_offset s0 = ofs + adjustment b"
    "load64 (heap s0) (b + adjustment b) = ((1048576 - adjustment b) AND - 2) OR 1"
    "load64 (heap s0) (b + adjustment b + 64) = 0"
    "load64 (heap s0) (b + adjustment b + 72) = 0"
    unfolding s0_def SlabAllocator_new_def Init_def
    using effective_size_fits[of b]
    by (simp_all add: slab_1MiB_def slab_ops Let_def ld_same ld_disj a te fe)
qed

text \<open>
  When the base offset is 0, the first block's offset is the null offset: the free list
  is empty from the start, every \<open>Allocate\<close> returns 0 and the scenario is four null
  offsets.
\<close>

lemma first_fit_scenario_null_base:
  assumes "b AND 63 = 0"
  shows "first_fit_scenario (SlabAllocator_new m0 b 1048576 0 junk) = Some (0, 0, 0, 0)"
proof -
  let ?s = "SlabAllocator_new m0 b 1048576 0 junk"
  have h: "m_free_list_head_offset ?s = 0"
    using aligned_base[OF assms]
    by (simp add: SlabAllocator_new_def Init_def Let_def ALIGNMENT_def sizeof_BlockHeader_def
        sizeof_BlockFooter_def)
  have a: "Allocate 100 ?s = Some (0, ?s)"
    by (simp add: req_100 h first_fit_null)
  have f: "Free 0 ?s = ?s" by (simp add: Free_def)
  show ?thesis by (simp add: first_fit_scenario_def a f)
qed

text \<open>
  C5 (as stated).  A fresh 1 MiB slab at a 64-byte aligned address with base offset 0: the
  three calls \<open>Allocate 100\<close> return the null offset 0, no block is allocated, and the
  call after \<open>Free\<close> returns the null offset again: no slot is reused.
\<close>

theorem null_base_offset_counterexample:
  "first_fit_scenario (SlabAllocator_new (\<lambda>_. 0) 65536 1048576 0 0) = Some (0, 0, 0, 0)"
  using first_fit_scenario_null_base[of 65536 "\<lambda>_. 0" 0] by simp

text \<open>
  C5 (amended).  On a fresh 1 MiB slab whose first block offset \<open>f\<close>, the base offset
  plus the bytes \<^verbatim>\<open>Init\<close> skips to align the region, is not the null offset 0 (and whose
  offsets do not wrap around within the slab), three calls \<open>Allocate 100\<close> return
  \<open>f + 64\<close>, \<open>f + 320\<close> and \<open>f + 576\<close>; after freeing the middle one, the next
  \<open>Allocate 100\<close> returns \<open>f + 320\<close> again, the freed middle slot, wherever the region
  lies and whatever it held before.
\<close>

theorem freed_middle_slot_reused:
  assumes "ofs + adjustment b \<noteq> 0" "unat ofs + 1048576 < 2 ^ 64"
  shows "first_fit_scenario (SlabAllocator_new m0 b 1048576 ofs junk) =
           Some (ofs + adjustment b + 64, ofs + adjustment b + 320, ofs + adjustment b + 576,
                 ofs + adjustment b + 320)"
proof -
  let ?s0 = "SlabAllocator_new m0 b 1048576 ofs junk"
  let ?a = "adjustment b"
  let ?E = "(1048576 - adjustment b) AND - 2"
  note p = assms(2,1) unat_adjustment[of b]
  note E = first_block_size_effective[of b]
  note i = c5_init[where b=b and ofs=ofs and mem=m0 and junk=junk]
  obtain s1 where s1: "Allocate 100 ?s0 = Some (ofs + ?a + 64, s1)" "slab_1MiB b ofs ?a s1"
      "m_free_list_head_offset s1 = ofs + ?a + 256" "load64 (heap s1) (b + ?a + 248) = 256"
      "load64 (heap s1) (b + ?a + 256) = (?E - 256) OR 1" "load64 (heap s1) (b + ?a + 320) = 0"
      "load64 (heap s1) (b + ?a + 328) = 0"
    using c5_alloc1[OF p E i] by blast
  obtain s2 where s2: "Allocate 100 s1 = Some (ofs + ?a + 320, s2)" "slab_1MiB b ofs ?a s2"
      "m_free_list_head_offset s2 = ofs + ?a + 512" "load64 (heap s2) (b + ?a + 248) = 256"
      "load64 (heap s2) (b + ?a + 256) = 256" "load64 (heap s2) (b + ?a + 512) = (?E - 512) OR 1"
      "load64 (heap s2) (b + ?a + 576) = 0" "load64 (heap s2) (b + ?a + 584) = 0"
    using c5_alloc2[OF p E s1(2-)] by blast
  obtain s3 where s3: "Allocate 100 s2 = Some (ofs + ?a + 576, s3)" "slab_1MiB b ofs ?a s3"
      "m_free_list_head_offset s3 = ofs + ?a + 768" "load64 (heap s3) (b + ?a + 248) = 256"
      "load64 (heap s3) (b + ?a + 256) = 256" "load64 (heap s3) (b + ?a + 512) = 256"
      "load64 (heap s3) (b + ?a + 832) = 0" "load64 (heap s3) (b + ?a + 840) = 0"
    using c5_alloc3[OF p E s2(2-)] by blast
  note f = c5_free2[OF p s3(2-)]
  obtain s4 where s4: "Allocate 100 (Free (ofs + ?a + 320) s3) = Some (ofs + ?a + 320, s4)"
    using c5_alloc4[OF p, of b "Free (ofs + ?a + 320) s3"] f by blast
  show ?thesis
    by (simp add: first_fit_scenario_def s1(1) s2(1) s3(1) s4)
qed

theorem freed_middle_slot_reused_witness:
  "first_fit_scenario (SlabAllocator_new (\<lambda>_. 0) 65541 1048576 4096 0) =
     Some (4219, 4475, 4731, 4475)"
  using freed_middle_slot_reused[of 4096 65541 "\<lambda>_. 0" 0]
  by (simp add: adjustment_def ALIGNMENT_def)

text \<open>
  C9.  \<open>Allocate 0\<close> returns the null offset 0 at once; the allocator, its heap
  included, is the one it was called on.
\<close>

theorem allocate_zero: "Allocate 0 s = Some (0, s)"
  by (simp add: Allocate_def)

text \<open>
  C7.  When the header of the block of payload offset \<open>p\<close> has its free bit set,
  \<open>Free p\<close> returns the allocator unchanged: heap bytes (every header, footer and free
  list node) and list head fields are the same.
\<close>

theorem double_free_ignored:
  "IsFree (heap s) (GetPtr s (p - sizeof_BlockHeader)) \<Longrightarrow> Free p s = s"
  by (simp add: Free_def Let_def)

theorem double_free_ignored_witness:
  "IsFree (heap (SlabAllocator_new (\<lambda>_. 0) 65536 1048576 4096 0))
     (GetPtr (SlabAllocator_new (\<lambda>_. 0) 65536 1048576 4096 0) (4160 - sizeof_BlockHeader)) \<and>
   Free 4160 (SlabAllocator_new (\<lambda>_. 0) 65536 1048576 4096 0) =
     SlabAllocator_new (\<lambda>_. 0) 65536 1048576 4096 0"
proof -
  let ?s = "SlabAllocator_new (\<lambda>_. 0) 65536 1048576 4096 0"
  have h: "IsFree (heap ?s) (GetPtr ?s (4160 - sizeof_BlockHeader))"
    by (simp add: SlabAllocator_new_def Init_def slab_ops Let_def ld_same ld_disj)
  show ?thesis using h double_free_ignored[OF h] by simp
qed


section \<open>Properties of the arena\<close>

text \<open>
  C10.  \<open>get_ghost_ptr\<close> returns \<open>InvalidAccess\<close> exactly when the offset is at least
  the arena size; below it, with a null base address, it returns
  \<open>InitializationFailed\<close>.
\<close>

theorem get_ghost_ptr_errors:
  "(get_ghost_ptr mm offset = Inl InvalidAccess \<longleftrightarrow> offset \<ge> GHOST_SPACE_SIZE) \<and>
   (offset < GHOST_SPACE_SIZE \<and> m_base_addr mm = 0 \<longrightarrow>
      get_ghost_ptr mm offset = Inl InitializationFailed)"
  by (auto simp: get_ghost_ptr_def)

theorem get_ghost_ptr_errors_witness:
  "get_ghost_ptr \<lparr>m_base_addr = 0, m_running = False, m_fault_count = 0,
       m_resident_pages = 0, ghost = (\<lambda>_. 0)\<rparr> 4096 = Inl InitializationFailed \<and>
   get_ghost_ptr \<lparr>m_base_addr = 0, m_running = False, m_fault_count = 0,
       m_resident_pages = 0, ghost = (\<lambda>_. 0)\<rparr> 4096 \<noteq> Inl InvalidAccess"
  using get_ghost_ptr_errors[of "\<lparr>m_base_addr = 0, m_running = False, m_fault_count = 0,
       m_resident_pages = 0, ghost = (\<lambda>_. 0)\<rparr>" 4096]
  by (simp add: GHOST_SPACE_SIZE_def)

lemma initialize_header_fresh:
  assumes "m_base_addr mm \<noteq> 0" "magic (ghost mm) (m_base_addr mm) \<noteq> GHOST_MAGIC"
  shows "magic (ghost (initialize_header mm)) (m_base_addr mm) = GHOST_MAGIC"
    "vector_count (ghost (initialize_header mm)) (m_base_addr mm) = 0"
    "head_offset (ghost (initialize_header mm)) (m_base_addr mm) = 24"
    "m_base_addr (initialize_header mm) = m_base_addr mm"
  using assms
  by (simp_all add: initialize_header_def get_ghost_ptr_def GHOST_SPACE_SIZE_def Let_def
      magic_def vector_count_def head_offset_def sizeof_MemoryHeader_def ld_same ld_disj)

text \<open>
  C8.  For a reserved arena (non-null base address): when the magic at offset 0 is not
  \<open>GHOST_MAGIC\<close>, as on a fresh zero-filled page, \<open>initialize_header\<close> leaves
  magic = \<open>GHOST_MAGIC\<close>, vector_count = 0 and head_offset = 24 = sizeof(header); when
  the magic already is \<open>GHOST_MAGIC\<close>, the manager and its memory are unchanged.
\<close>

theorem initialize_header_bootstrap:
  assumes "m_base_addr mm \<noteq> 0"
  shows "(magic (ghost mm) (m_base_addr mm) \<noteq> GHOST_MAGIC \<longrightarrow>
            magic (ghost (initialize_header mm)) (m_base_addr mm) = GHOST_MAGIC \<and>
            vector_count (ghost (initialize_header mm)) (m_base_addr mm) = 0 \<and>
            head_offset (ghost (initialize_header mm)) (m_base_addr mm) = sizeof_MemoryHeader) \<and>
         (magic (ghost mm) (m_base_addr mm) = GHOST_MAGIC \<longrightarrow> initialize_header mm = mm)"
proof (intro conjI impI)
  assume "magic (ghost mm) (m_base_addr mm) = GHOST_MAGIC"
  then show "initialize_header mm = mm"
    using assms by (simp add: initialize_header_def get_ghost_ptr_def GHOST_SPACE_SIZE_def)
qed (use assms initialize_header_fresh in \<open>simp_all add: sizeof_MemoryHeader_def\<close>)

lemma load64_zero: "load64 (\<lambda>_. 0) a = 0"
  by (simp add: load64_def)

theorem initialize_header_bootstrap_witness:
  "magic (ghost (initialize_header \<lparr>m_base_addr = 4096, m_running = True, m_fault_count = 0,
       m_resident_pages = 0, ghost = (\<lambda>_. 0)\<rparr>)) 4096 = GHOST_MAGIC \<and>
   vector_count (ghost (initialize_header \<lparr>m_base_addr = 4096, m_running = True,
       m_fault_count = 0, m_resident_pages = 0, ghost = (\<lambda>_. 0)\<rparr>)) 4096 = 0 \<and>
   head_offset (ghost (initialize_header \<lparr>m_base_addr = 4096, m_running = True,
       m_fault_count = 0, m_resident_pages = 0, ghost = (\<lambda>_. 0)\<rparr>)) 4096 = 24 \<and>
   initialize_header (initialize_header \<lparr>m_base_addr = 4096, m_running = True,
       m_fault_count = 0, m_resident_pages = 0, ghost = (\<lambda>_. 0)\<rparr>) =
     initialize_header \<lparr>m_base_addr = 4096, m_running = True,
       m_fault_count = 0, m_resident_pages = 0, ghost = (\<lambda>_. 0)\<rparr>"
proof -
  let ?mm = "\<lparr>m_base_addr = 4096, m_running = True, m_fault_count = 0,
       m_resident_pages = 0, ghost = (\<lambda>_. 0)\<rparr>"
  have a: "m_base_addr ?mm \<noteq> 0" by simp
  have b: "magic (ghost ?mm) (m_base_addr ?mm) \<noteq> GHOST_MAGIC"
    by (simp add: magic_def load64_zero GHOST_MAGIC_def)
  have c: "m_base_addr (initialize_header ?mm) \<noteq> 0"
    using initialize_header_fresh(4)[OF a b] by simp
  have d: "m_base_addr (initialize_header ?mm) = 4096"
    using initialize_header_fresh(4)[OF a b] by simp
  show ?thesis
    using initialize_header_bootstrap[OF a] initialize_header_bootstrap[OF c] b d
    by (simp add: sizeof_MemoryHeader_def)
qed



section \<open>Properties of the document pipeline\<close>

lemma unat_arena_size: "unat GHOST_SPACE_SIZE = 1099511627776"
  by (simp add: GHOST_SPACE_SIZE_def)

text \<open>An offset below the size of the arena is an address of the arena.\<close>

lemma in_arena_offset:
  assumes "m_base_addr mm \<noteq> 0" "unat (m_base_addr mm) + unat GHOST_SPACE_SIZE < 2 ^ 64"
    and "k < unat GHOST_SPACE_SIZE"
  shows "in_arena mm (m_base_addr mm + of_nat k)"
proof -
  let ?B = "m_base_addr mm"
  have k: "unat (of_nat k :: u64) = k"
    using assms(3) by (simp add: unat_of_nat unat_arena_size)
  have a: "unat (?B + of_nat k) = unat ?B + k"
    using assms(2,3) k unat_ofs_add[of ?B "of_nat k"] by simp
  have e: "unat (?B + GHOST_SPACE_SIZE) = unat ?B + unat GHOST_SPACE_SIZE"
    using assms(2) unat_ofs_add[of ?B GHOST_SPACE_SIZE] by simp
  show ?thesis
    using assms(1,3) a e by (simp add: in_arena_def word_le_nat_alt word_less_nat_alt)
qed

lemma first_fault_None:
  assumes "m_base_addr mm \<noteq> 0" "unat (m_base_addr mm) + unat GHOST_SPACE_SIZE < 2 ^ 64"
    and "k + n \<le> unat GHOST_SPACE_SIZE"
  shows "first_fault mm (m_base_addr mm + of_nat k) n = None"
proof -
  have "in_arena mm (m_base_addr mm + of_nat k + of_nat i)" if "i < n" for i
  proof -
    have "in_arena mm (m_base_addr mm + of_nat (k + i))"
      by (rule in_arena_offset[OF assms(1,2)]) (use that assms(3) in simp)
    then show ?thesis by (simp add: add.assoc)
  qed
  then show ?thesis by (simp add: first_fault_def find_None_iff)
qed

lemma arena_access_ok:
  "first_fault mm a n = None \<Longrightarrow> arena_access mm a n f (Inr w) = Inr (f w)"
  by (simp add: arena_access_def)

text \<open>
  The quantization loop when its 256 lanes are in the arena: it ends without a fault, has
  stored the lanes in order, and has written no byte outside of them.
\<close>

lemma quantize_loop_run:
  assumes "i \<le> 256" "length dense_vec = 256"
    and "\<And>j. j < 256 \<Longrightarrow> first_fault mm (q + of_nat j) 1 = None"
  shows "\<exists>m'. quantize_loop mm fo dense_vec mn mx q i (Inr w) =
           Inr (m', snd w @ map (\<lambda>j. Store8 (q + of_nat j) (quantize_lane fo mn mx (dense_vec ! j)))
                              [i..<256]) \<and>
           (\<forall>x. 256 \<le> unat (x - q) \<longrightarrow> m' x = fst w x)"
  using assms(1)
proof (induction "256 - i" arbitrary: i w)
  case 0
  then have "i = 256" by simp
  then have "quantize_loop mm fo dense_vec mn mx q i (Inr w) = Inr (fst w, snd w)"
    by (subst quantize_loop.simps) (simp add: VECTOR_DIM_def)
  then show ?case using \<open>i = 256\<close> by (intro exI[of _ "fst w"]) simp
next
  case (Suc k)
  then have i: "i < 256" by simp
  let ?v = "quantize_lane fo mn mx (dense_vec ! i)"
  let ?w = "do_store8 (q + of_nat i) ?v w"
  have e: "[i..<256] = i # [i + 1..<256]" using i by (simp add: upt_conv_Cons)
  have st: "quantize_loop mm fo dense_vec mn mx q i (Inr w) =
              quantize_loop mm fo dense_vec mn mx q (i + 1) (Inr ?w)"
    using i assms(2) arena_access_ok[OF assms(3)[OF i]]
    by (subst quantize_loop.simps) (simp add: VECTOR_DIM_def Let_def)
  have "k = 256 - (i + 1)" "i + 1 \<le> 256" using Suc(2) i by simp_all
  from Suc(1)[OF this, of ?w] obtain m' where
    m': "quantize_loop mm fo dense_vec mn mx q (i + 1) (Inr ?w) =
           Inr (m', snd ?w @ map (\<lambda>j. Store8 (q + of_nat j) (quantize_lane fo mn mx (dense_vec ! j)))
                               [i + 1..<256])"
      "\<forall>x. 256 \<le> unat (x - q) \<longrightarrow> m' x = fst ?w x"
    by blast
  have fr: "fst ?w x = fst w x" if "256 \<le> unat (x - q)" for x
  proof -
    have "x \<noteq> q + of_nat i"
    proof
      assume "x = q + of_nat i"
      then have "x - q = of_nat i" by simp
      then have "unat (x - q) = i" using i by (simp add: unat_of_nat)
      then show False using that i by simp
    qed
    then show ?thesis by (simp add: do_store8_def)
  qed
  show ?case
    unfolding st using m' fr by (simp add: e do_store8_def)
qed

lemma store_bytes_frame: "length bs \<le> unat (x - a) \<Longrightarrow> store_bytes m a bs x = m x"
  by (simp add: store_bytes_def)

lemma load64_cong_bytes:
  assumes "\<And>k. k < 8 \<Longrightarrow> m' (a + k) = m (a + k)"
  shows "load64 m' a = load64 m a"
proof -
  have "m' (a + 0) = m (a + 0)" by (rule assms) simp
  then have "m' a = m a" by simp
  moreover have "m' (a + 1) = m (a + 1)" "m' (a + 2) = m (a + 2)" "m' (a + 3) = m (a + 3)"
    "m' (a + 4) = m (a + 4)" "m' (a + 5) = m (a + 5)" "m' (a + 6) = m (a + 6)"
    "m' (a + 7) = m (a + 7)"
    by (rule assms, simp)+
  ultimately show ?thesis by (simp add: load64_def)
qed

lemma length_vectorize: "length (vectorize fo tc) = 256"
proof -
  have "length (foldl (\<lambda>dense_vec (term_id, count).
              let bucket = unat term_id mod VECTOR_DIM
              in dense_vec[bucket := f_add fo (dense_vec ! bucket) (f_of_int fo count)]) v tc) = length v" for v
    by (induction tc arbitrary: v) (auto simp: Let_def split: prod.splits)
  then show ?thesis by (simp add: vectorize_def VECTOR_DIM_def)
qed

text \<open>
  A header field at \<open>B + c + k\<close> (\<open>c + k < 24\<close>) is at distance at least \<open>n\<close> after the
  end of a write of \<open>n \<le> 256\<close> bytes at \<open>B + h + d\<close> when \<open>24 \<le> h < 2 ^ 40\<close> and \<open>d \<le> 8\<close>:
  the difference of the addresses wraps around to the top of the address space.
\<close>

lemma header_clear_of_record:
  assumes "24 \<le> unat (h::u64)" "unat h < 2 ^ 40" "unat c < 24" "unat d \<le> 8"
  shows "256 \<le> unat ((B + c) - (B + h + d))"
proof -
  have e: "(B + c) - (B + h + d) = - (h + d - c)" by simp
  have hd: "unat (h + d) = unat h + unat d"
    using assms by (simp add: unat_add_lem[THEN iffD1])
  have le: "c \<le> h + d" using assms hd by (simp add: word_le_nat_alt)
  have sub: "unat (h + d - c) = unat h + unat d - unat c"
    using le hd by (simp add: unat_sub)
  have nz: "h + d - c \<noteq> 0" using sub assms by (auto simp: word_unat_eq_iff)
  have "unat (- (h + d - c)) = 2 ^ 64 - unat (h + d - c)" using nz by (rule unat_neg_u64)
  then show ?thesis unfolding e using sub assms by simp
qed

lemma header_field_kept:
  assumes h: "24 \<le> unat (h::u64)" "unat h < 2 ^ 40" and c: "unat c \<le> 16"
    and m': "\<forall>x. 256 \<le> unat (x - (B + h + 4 + 4)) \<longrightarrow>
                 m' x = fst (do_memcpy (B + h + 4) bs2 (do_memcpy (B + h) bs1 (m, []))) x"
    and len: "length bs1 = 4" "length bs2 = 4"
  shows "load64 m' (B + c) = load64 m (B + c)"
proof (rule load64_cong_bytes)
  fix k :: u64
  assume k: "k < 8"
  have ck: "unat (c + k) < 24"
  proof -
    have "unat k < 8" using k by (simp add: word_less_nat_alt)
    then show ?thesis using c by (simp add: unat_word_ariths)
  qed
  have d0: "256 \<le> unat ((B + (c + k)) - (B + h + 0))"
    and d4: "256 \<le> unat ((B + (c + k)) - (B + h + 4))"
    and d8: "256 \<le> unat ((B + (c + k)) - (B + h + 8))"
    using header_clear_of_record[OF h ck, of 0 B] header_clear_of_record[OF h ck, of 4 B]
      header_clear_of_record[OF h ck, of 8 B] by simp_all
  have e8: "B + h + 4 + 4 = B + h + 8" by simp
  have "m' (B + (c + k)) = fst (do_memcpy (B + h + 4) bs2 (do_memcpy (B + h) bs1 (m, []))) (B + (c + k))"
    using m' d8 unfolding e8 by blast
  also have "\<dots> = m (B + (c + k))"
    using d0 d4 len by (simp add: do_memcpy_def store_bytes_frame)
  finally show "m' (B + c + k) = m (B + c + k)" by (simp add: add.assoc)
qed

lemma length_bytes32: "length (bytes32 w) = 4"
  by (simp add: bytes32_def)

text \<open>
  The run of \<open>ProcessDocument\<close> on an arena that has room for the record: \<open>acc\<close> are its
  write accesses and \<open>mm'\<close> is the manager it leaves.
\<close>

lemma ProcessDocument_run:
  fixes fo :: "'f float_ops"
  assumes tc: "tokenize content \<noteq> []" and base: "m_base_addr mm \<noteq> 0"
    and ar: "unat (m_base_addr mm) + unat GHOST_SPACE_SIZE < 2 ^ 64"
    and lo: "24 \<le> unat (head_offset (ghost mm) (m_base_addr mm))"
    and hi: "unat (head_offset (ghost mm) (m_base_addr mm)) + 264 \<le> unat GHOST_SPACE_SIZE"
  shows "\<exists>mm'. ProcessDocument fo tokenize content mm =
           Inr (mm', record_writes fo (tokenize content)
                       (m_base_addr mm + head_offset (ghost mm) (m_base_addr mm)) @
                     [Store64 (m_base_addr mm + 16)
                        (head_offset (ghost mm) (m_base_addr mm) + 264),
                      FetchAdd64 (m_base_addr mm + 8) 1 memory_order_release]) \<and>
           head_offset (ghost mm') (m_base_addr mm) =
             head_offset (ghost mm) (m_base_addr mm) + 264 \<and>
           vector_count (ghost mm') (m_base_addr mm) =
             vector_count (ghost mm) (m_base_addr mm) + 1"
proof -
  define B where "B = m_base_addr mm"
  define h where "h = head_offset (ghost mm) B"
  define dense where "dense = vectorize fo (tokenize content)"
  define mn where "mn = fst (min_max fo dense)"
  define mx where "mx = snd (min_max fo dense)"
  define scale where "scale = (if f_abs_lt_1em6 fo (f_sub fo mx mn) then f_one fo
                               else f_div fo (f_sub fo mx mn) (f_255 fo))"
  define w2 where "w2 = do_memcpy (B + h + 4) (bytes32 (f_bits fo mn))
                      (do_memcpy (B + h) (bytes32 (f_bits fo scale)) (ghost mm, []))"
  have mm: "min_max fo dense = (mn, mx)" by (simp add: mn_def mx_def)
  have h24: "24 \<le> unat h" using lo by (simp add: h_def B_def)
  have hS: "unat h + 264 \<le> unat GHOST_SPACE_SIZE" using hi by (simp add: h_def B_def)
  have h40: "unat h < 2 ^ 40" using hS by (simp add: unat_arena_size)
  have hh: "of_nat (unat h) = h" by simp
  note nf = first_fault_None[OF base ar, folded B_def]
  have f0: "first_fault mm (B + 16) 8 = None" "first_fault mm (B + 8) 8 = None"
    using nf[of 16 8] nf[of 8 8] by (simp_all add: unat_arena_size)
  have f1: "first_fault mm (B + h) 4 = None"
    using nf[of "unat h" 4] hS by (simp add: hh)
  have f2: "first_fault mm (B + h + 4) 4 = None"
    using nf[of "unat h + 4" 4] hS by (simp add: hh add.assoc)
  have f3: "first_fault mm (B + h + 4 + 4 + of_nat j) 1 = None" if "j < 256" for j
    using nf[of "unat h + 8 + j" 1] hS that by (simp add: hh add.assoc)
  obtain m3 where w3: "quantize_loop mm fo dense mn mx (B + h + 4 + 4) 0 (Inr w2) =
        Inr (m3, snd w2 @ map (\<lambda>j. Store8 (B + h + 4 + 4 + of_nat j)
                                    (quantize_lane fo mn mx (dense ! j))) [0..<256])"
      and m3: "\<forall>x. 256 \<le> unat (x - (B + h + 4 + 4)) \<longrightarrow> m3 x = fst w2 x"
    using quantize_loop_run[of 0 dense mm "B + h + 4 + 4" fo mn mx w2] f3
    by (auto simp: dense_def length_vectorize)
  define acc3 where "acc3 = snd w2 @ map (\<lambda>j. Store8 (B + h + 4 + 4 + of_nat j)
                                    (quantize_lane fo mn mx (dense ! j))) [0..<256]"
  have "load64 m3 (B + 16) = load64 (ghost mm) (B + 16)"
    by (rule header_field_kept[OF h24 h40 _ m3[unfolded w2_def]]) (simp_all add: length_bytes32)
  then have ho: "load64 m3 (B + 16) = h"
    by (simp add: h_def head_offset_def)
  have vc: "load64 m3 (B + 8) = load64 (ghost mm) (B + 8)"
    by (rule header_field_kept[OF h24 h40 _ m3[unfolded w2_def]]) (simp_all add: length_bytes32)
  have tr: "acc3 = record_writes fo (tokenize content) (B + h)"
    unfolding acc3_def w2_def
    by (simp add: dense_def do_memcpy_def record_writes_def Let_def mn_def mx_def scale_def)
  define m5 where "m5 = store64 (store64 m3 (B + 16) (h + 264)) (B + 8)
                          (load64 (store64 m3 (B + 16) (h + 264)) (B + 8) + 1)"
  have a0: "arena_access mm (B + 16) 8 (\<lambda>w. w) (Inr (ghost mm, [])) = Inr (ghost mm, [])"
    by (simp add: arena_access_ok f0)
  have a2: "arena_access mm (B + h + 4) 4 (do_memcpy (B + h + 4) (bytes32 (f_bits fo mn)))
              (arena_access mm (B + h) 4 (do_memcpy (B + h) (bytes32 (f_bits fo scale)))
                 (Inr (ghost mm, []))) = Inr w2"
    by (simp add: arena_access_ok f1 f2 w2_def)
  have a5: "arena_access mm (B + 8) 8 (do_fetch_add (B + 8) 1 memory_order_release)
              (arena_access mm (B + 16) 8
                 (\<lambda>w. do_store64 (B + 16) (head_offset (fst w) B + (4 + 4 + of_nat VECTOR_DIM)) w)
                 (Inr (m3, acc3))) =
            Inr (m5, acc3 @ [Store64 (B + 16) (h + 264),
                             FetchAdd64 (B + 8) 1 memory_order_release])"
    by (simp add: arena_access_ok f0 do_store64_def do_fetch_add_def head_offset_def ho m5_def
        VECTOR_DIM_def)
  have B0: "B \<noteq> 0" using base by (simp add: B_def)
  have pd: "ProcessDocument fo tokenize content mm =
     Inr (mm\<lparr>ghost := m5\<rparr>,
          acc3 @ [Store64 (B + 16) (h + 264), FetchAdd64 (B + 8) 1 memory_order_release])"
    unfolding ProcessDocument_def Let_def
    by (simp only: tc B0 if_False B_def[symmetric] h_def[symmetric] dense_def[symmetric] mm
        prod.case scale_def[symmetric] a0 a2 w3 acc3_def[symmetric] a5 sum.case fst_conv
        snd_conv)
  have r1: "head_offset m5 B = h + 264"
    by (simp add: m5_def head_offset_def ld_same ld_disj)
  have r2: "vector_count m5 B = vector_count (ghost mm) B + 1"
    by (simp add: m5_def vector_count_def ld_same ld_disj vc)
  show ?thesis
    unfolding B_def[symmetric] h_def[symmetric] pd tr[symmetric]
    using r1 r2 by simp
qed

text \<open>
  When the record does not fit below the end of the arena, an access of the run lies
  outside of it: the run ends in a fault, and neither the head offset nor the counter is
  written.
\<close>

lemma arena_access_isl: "isl r \<Longrightarrow> isl (arena_access mm a n f r)"
  by (cases r) (simp_all add: arena_access_def)

lemma first_fault_Some:
  assumes "i < n" "\<not> in_arena mm (a + of_nat i)"
  shows "first_fault mm a n \<noteq> None"
  using assms by (auto simp: first_fault_def find_None_iff)

lemma arena_access_bad: "first_fault mm a n \<noteq> None \<Longrightarrow> isl (arena_access mm a n f r)"
  by (cases r) (auto simp: arena_access_def)

lemma quantize_loop_isl: "isl r \<Longrightarrow> isl (quantize_loop mm fo d mn mx q i r)"
proof (induction mm fo d mn mx q i r rule: quantize_loop.induct)
  case (1 mm fo dense_vec min_val max_val q_dest i w)
  show ?case
  proof (cases "i < VECTOR_DIM")
    case True
    then show ?thesis
      using 1 by (subst quantize_loop.simps) (simp add: Let_def arena_access_isl)
  next
    case False
    then show ?thesis using 1(2) by (subst quantize_loop.simps) simp
  qed
qed

lemma quantize_loop_bad:
  "i \<le> j \<Longrightarrow> j < 256 \<Longrightarrow> first_fault mm (q + of_nat j) 1 \<noteq> None \<Longrightarrow>
   isl (quantize_loop mm fo d mn mx q i r)"
proof (induction mm fo d mn mx q i r rule: quantize_loop.induct)
  case (1 mm fo dense_vec min_val max_val q_dest i w)
  have i: "i < VECTOR_DIM" using 1(2,3) by (simp add: VECTOR_DIM_def)
  show ?case
  proof (cases "i = j")
    case True
    have "isl (arena_access mm (q_dest + of_nat i) 1
                 (do_store8 (q_dest + of_nat i)
                    (quantize_lane fo min_val max_val
                       (if i < length dense_vec then dense_vec ! i else f_zero fo))) w)"
      using 1(4) True by (intro arena_access_bad) simp
    then show ?thesis
      using i by (subst quantize_loop.simps) (simp add: Let_def quantize_loop_isl)
  next
    case False
    then have "i + 1 \<le> j" using 1(2) by simp
    then show ?thesis
      using i 1(1)[OF i refl _ 1(3,4)] by (subst quantize_loop.simps) (simp add: Let_def)
  qed
qed

lemma not_in_arena:
  assumes "unat (m_base_addr mm) + unat GHOST_SPACE_SIZE < 2 ^ 64"
    and "unat GHOST_SPACE_SIZE \<le> unat k"
  shows "\<not> in_arena mm (m_base_addr mm + k)"
proof -
  let ?B = "m_base_addr mm"
  have e: "unat (?B + GHOST_SPACE_SIZE) = unat ?B + unat GHOST_SPACE_SIZE"
    using assms(1) unat_ofs_add[of ?B GHOST_SPACE_SIZE] by simp
  show ?thesis
  proof (cases "unat ?B + unat k < 2 ^ 64")
    case True
    then have "unat (?B + k) = unat ?B + unat k" by (rule unat_ofs_add)
    then show ?thesis using assms(2) e by (simp add: in_arena_def word_less_nat_alt)
  next
    case False
    have u: "unat ?B < 2 ^ 64" "unat k < 2 ^ 64"
      using unsigned_less[of ?B] unsigned_less[of k] by simp_all
    have "unat (?B + k) = (unat ?B + unat k) mod 2 ^ 64"
      by (simp add: unat_word_ariths)
    also have "\<dots> = (unat ?B + unat k - 2 ^ 64) mod 2 ^ 64"
      using False by (intro le_mod_geq) simp
    also have "\<dots> = unat ?B + unat k - 2 ^ 64"
      using u by (intro mod_less) simp
    finally have "unat (?B + k) = unat ?B + unat k - 2 ^ 64" .
    then have "unat (?B + k) < unat ?B" using False u by simp
    then show ?thesis by (simp add: in_arena_def word_le_nat_alt)
  qed
qed

lemma ProcessDocument_past_end:
  fixes fo :: "'f float_ops"
  assumes tc: "tokenize content \<noteq> []" and base: "m_base_addr mm \<noteq> 0"
    and ar: "unat (m_base_addr mm) + unat GHOST_SPACE_SIZE < 2 ^ 64"
    and hi: "unat GHOST_SPACE_SIZE < unat (head_offset (ghost mm) (m_base_addr mm)) + 264"
  shows "isl (ProcessDocument fo tokenize content mm)"
proof -
  define B where "B = m_base_addr mm"
  define h where "h = head_offset (ghost mm) B"
  have S: "unat GHOST_SPACE_SIZE < unat h + 264" using hi by (simp add: h_def B_def)
  obtain k where k: "k < 264" "unat GHOST_SPACE_SIZE \<le> unat (h + of_nat k)"
  proof (cases "unat GHOST_SPACE_SIZE \<le> unat h")
    case True
    then show ?thesis using that[of 0] by simp
  next
    case False
    let ?k = "unat GHOST_SPACE_SIZE - unat h"
    have "h + of_nat ?k = GHOST_SPACE_SIZE"
      using False by (simp add: of_nat_diff)
    then show ?thesis using that[of ?k] S False by simp
  qed
  have bad: "\<not> in_arena mm (B + h + of_nat k)"
    using not_in_arena[OF ar k(2)] by (simp add: B_def add.assoc)
  define dense where "dense = vectorize fo (tokenize content)"
  define mn where "mn = fst (min_max fo dense)"
  define mx where "mx = snd (min_max fo dense)"
  define scale where "scale = (if f_abs_lt_1em6 fo (f_sub fo mx mn) then f_one fo
                               else f_div fo (f_sub fo mx mn) (f_255 fo))"
  define w0 where "w0 = arena_access mm (B + 16) 8 (\<lambda>w. w) (Inr (ghost mm, []))"
  define w1 where "w1 = arena_access mm (B + h) 4 (do_memcpy (B + h) (bytes32 (f_bits fo scale))) w0"
  define w2 where "w2 = arena_access mm (B + h + 4) 4
                          (do_memcpy (B + h + 4) (bytes32 (f_bits fo mn))) w1"
  define w3 where "w3 = quantize_loop mm fo dense mn mx (B + h + 4 + 4) 0 w2"
  have mm: "min_max fo dense = (mn, mx)" by (simp add: mn_def mx_def)
  have B0: "B \<noteq> 0" using base by (simp add: B_def)
  have "isl w3"
  proof -
    consider "k < 4" | "4 \<le> k" "k < 8" | "8 \<le> k" by linarith
    then show ?thesis
    proof cases
      case 1
      have "first_fault mm (B + h) 4 \<noteq> None"
        using first_fault_Some[OF 1 bad] .
      then have "isl w1" unfolding w1_def by (rule arena_access_bad)
      then show ?thesis
        unfolding w3_def w2_def by (intro quantize_loop_isl arena_access_isl)
    next
      case 2
      have eq: "B + h + 4 + of_nat (k - 4) = B + h + of_nat k"
        using 2(1) by (simp add: of_nat_diff)
      have nb: "\<not> in_arena mm (B + h + 4 + of_nat (k - 4))"
        unfolding eq by (rule bad)
      have lt: "k - 4 < 4" using 2 by simp
      have "first_fault mm (B + h + 4) 4 \<noteq> None"
        using first_fault_Some[OF lt nb] .
      then have "isl w2" unfolding w2_def by (rule arena_access_bad)
      then show ?thesis unfolding w3_def by (rule quantize_loop_isl)
    next
      case 3
      have eq: "B + h + 4 + 4 + of_nat (k - 8) + of_nat 0 = B + h + of_nat k"
        using 3 by (simp add: of_nat_diff)
      have nb: "\<not> in_arena mm (B + h + 4 + 4 + of_nat (k - 8) + of_nat 0)"
        unfolding eq by (rule bad)
      have "first_fault mm (B + h + 4 + 4 + of_nat (k - 8)) 1 \<noteq> None"
        by (rule first_fault_Some[OF _ nb]) simp
      then show ?thesis
        unfolding w3_def using k(1) 3 by (intro quantize_loop_bad[of 0 "k - 8"]) simp_all
    qed
  qed
  then have "isl (arena_access mm (B + 8) 8 (do_fetch_add (B + 8) 1 memory_order_release)
                (arena_access mm (B + 16) 8
                   (\<lambda>w. do_store64 (B + 16)
                          (head_offset (fst w) B + (4 + 4 + of_nat VECTOR_DIM)) w) w3))"
    by (intro arena_access_isl)
  then obtain e where e: "arena_access mm (B + 8) 8 (do_fetch_add (B + 8) 1 memory_order_release)
                (arena_access mm (B + 16) 8
                   (\<lambda>w. do_store64 (B + 16)
                          (head_offset (fst w) B + (4 + 4 + of_nat VECTOR_DIM)) w) w3) = Inl e"
    by (auto simp: isl_def)
  have "ProcessDocument fo tokenize content mm = Inl e"
    unfolding ProcessDocument_def Let_def
    by (simp only: tc B0 if_False B_def[symmetric] h_def[symmetric] dense_def[symmetric] mm
        prod.case scale_def[symmetric] w0_def[symmetric] w1_def[symmetric] w2_def[symmetric]
        w3_def[symmetric] e sum.case)
  then show ?thesis by simp
qed

subsection \<open>Values of the float operations\<close>

lemmas f32_fields = f32_sign_def f32_exp_def f32_man_def

lemma f32_fields_zero: "f32_exp 0 = 0" "f32_man 0 = 0" "f32_sign 0 = False"
  by (simp_all add: f32_fields)

lemma f32_fields_one:
  "f32_exp 1065353216 = 127" "f32_man 1065353216 = 0" "f32_sign 1065353216 = False"
  by (simp_all add: f32_fields)

lemma f32_fields_minus_one:
  "f32_exp 3212836864 = 127" "f32_man 3212836864 = 0" "f32_sign 3212836864 = True"
  by (simp_all add: f32_fields)

lemma f32_fields_255:
  "f32_exp 1132396544 = 134" "f32_man 1132396544 = 8323072" "f32_sign 1132396544 = False"
  by (simp_all add: f32_fields)

lemma f32_fields_nan:
  "f32_exp 4290772992 = 255" "f32_man 4290772992 = 4194304" "f32_sign 4290772992 = True"
  by (simp_all add: f32_fields)

lemma f32_of_int_1: "f32_of_int 1 = 1065353216"
  by (simp add: f32_of_int_def f32_round_def f32_shift.simps Let_def f32_pack_def)

lemma f32_add_zero_one: "f32_add 0 1065353216 = 1065353216"
  by (simp add: f32_add_def f32_is_nan_def f32_is_inf_def f32_val_def f32_mag_def f32_fields_zero
      f32_fields_one f32_round_def f32_shift.simps Let_def f32_pack_def)

lemma f32_less_one_one: "\<not> f32_less 1065353216 1065353216"
  by (simp add: f32_less_def)

lemma f32_sub_one_one: "f32_sub 1065353216 1065353216 = 0"
  by (simp add: f32_sub_def f32_add_def f32_is_nan_def f32_is_inf_def f32_val_def f32_mag_def
      f32_fields_one f32_fields_minus_one f32_pack_def)

lemma f32_abs_lt_1em6_zero: "f32_abs_lt_1em6 0"
  by (simp add: f32_abs_lt_1em6_def f32_is_nan_def f32_is_inf_def f32_mag_def f32_fields_zero)

lemma f32_div_zero_zero: "f32_div 0 0 = 4290772992"
  by (simp add: f32_div_def f32_is_nan_def f32_is_inf_def f32_mag_def f32_fields_zero
      f32_default_nan_def)

lemma f32_mul_nan_255: "f32_mul 4290772992 1132396544 = 4290772992"
  by (simp add: f32_mul_def f32_is_nan_def f32_nan_of_def f32_fields_nan)

lemma f32_round_to_int_nan: "f32_round_to_int 4290772992 = 2147483648"
  by (simp add: f32_round_to_int_def f32_is_nan_def f32_fields_nan)

text \<open>
  A lane of a flat vector: \<open>0 / 0\<close> is a NaN, its conversion gives \<open>0x80000000\<close>, the
  subtraction of 128 wraps around to \<open>0x7FFFFF80\<close>, and the clamp brings it to 127.
\<close>

lemma quantize_lane_flat:
  "quantize_lane x86_64_float_ops 1065353216 1065353216 1065353216 = 127"
  by (simp add: quantize_lane_def x86_64_float_ops_def Let_def f32_sub_one_one f32_div_zero_zero
      f32_mul_nan_255 f32_round_to_int_nan)

lemma bytes32_one: "bytes32 1065353216 = [0, 0, 128, 63]"
  by (simp add: bytes32_def)

text \<open>The dense vector of a document with 256 terms, one in each bucket, each once.\<close>

lemma vectorize_flat_prefix:
  "k \<le> 256 \<Longrightarrow>
   foldl (\<lambda>dense_vec (term_id, count).
            let bucket = unat term_id mod VECTOR_DIM
            in dense_vec[bucket := f_add x86_64_float_ops (dense_vec ! bucket)
                                     (f_of_int x86_64_float_ops count)])
         (replicate 256 0) (map (\<lambda>i. (of_nat i :: u32, 1)) [0..<k]) =
     replicate k 1065353216 @ replicate (256 - k) 0"
proof (induction k)
  case 0
  then show ?case by simp
next
  case (Suc k)
  then have k: "k < 256" by simp
  have b: "unat (of_nat k :: u32) mod VECTOR_DIM = k"
    using k by (simp add: unat_of_nat VECTOR_DIM_def)
  have r: "replicate (256 - k) (0::u32) = 0 # replicate (256 - Suc k) 0"
    using k by (cases "256 - k") simp_all
  have a: "f_add x86_64_float_ops 0 (f_of_int x86_64_float_ops 1) = 1065353216"
    by (simp add: x86_64_float_ops_def f32_of_int_1 f32_add_zero_one)
  show ?case
    using Suc.IH k
    by (simp add: b r a Let_def nth_append list_update_append replicate_append_same)
qed

lemma vectorize_flat: "vectorize x86_64_float_ops flat_counts = replicate 256 1065353216"
  using vectorize_flat_prefix[of 256]
  by (simp add: vectorize_def flat_counts_def VECTOR_DIM_def x86_64_float_ops_def)

lemma min_max_replicate:
  assumes "\<not> f_less fo a a"
  shows "foldl (\<lambda>(min_val, max_val) v.
                  (if f_less fo v min_val then v else min_val,
                   if f_less fo max_val v then v else max_val)) (a, a) (replicate n a) = (a, a)"
  using assms by (induction n) simp_all

lemma min_max_flat:
  "min_max x86_64_float_ops (replicate 256 1065353216) = (1065353216, 1065353216)"
proof -
  have "\<not> f_less x86_64_float_ops 1065353216 1065353216"
    by (simp add: x86_64_float_ops_def f32_less_one_one)
  then show ?thesis by (simp add: min_max_def min_max_replicate)
qed

lemma record_writes_flat:
  "record_writes x86_64_float_ops flat_counts dest =
     [Memcpy dest [0, 0, 128, 63], Memcpy (dest + 4) [0, 0, 128, 63]] @
     map (\<lambda>i. Store8 (dest + 8 + of_nat i) 127) [0..<256]"
proof -
  have s: "f_abs_lt_1em6 x86_64_float_ops (f_sub x86_64_float_ops 1065353216 1065353216)"
    by (simp add: x86_64_float_ops_def f32_sub_one_one f32_abs_lt_1em6_zero)
  have l: "map (\<lambda>i. Store8 (dest + 8 + of_nat i)
                  (quantize_lane x86_64_float_ops 1065353216 1065353216
                     (replicate 256 1065353216 ! i))) [0..<256] =
           map (\<lambda>i. Store8 (dest + 8 + of_nat i) 127) [0..<256]"
    by (rule map_cong) (simp_all add: quantize_lane_flat)
  have o: "f_bits x86_64_float_ops (f_one x86_64_float_ops) = 1065353216"
    "f_bits x86_64_float_ops 1065353216 = 1065353216"
    by (simp_all add: x86_64_float_ops_def)
  show ?thesis
    unfolding record_writes_def vectorize_flat min_max_flat Let_def
    by (simp only: fst_conv snd_conv s if_True o bytes32_one l)
qed

subsection \<open>The append protocol and the quantization\<close>

lemma initialized_arena:
  "m_base_addr (initialize_header \<lparr>m_base_addr = 4096, m_running = True, m_fault_count = 0,
       m_resident_pages = 0, ghost = (\<lambda>_. 0)\<rparr>) = 4096"
  "head_offset (ghost (initialize_header \<lparr>m_base_addr = 4096, m_running = True,
       m_fault_count = 0, m_resident_pages = 0, ghost = (\<lambda>_. 0)\<rparr>)) 4096 = 24"
  "vector_count (ghost (initialize_header \<lparr>m_base_addr = 4096, m_running = True,
       m_fault_count = 0, m_resident_pages = 0, ghost = (\<lambda>_. 0)\<rparr>)) 4096 = 0"
proof -
  let ?mm = "\<lparr>m_base_addr = 4096, m_running = True, m_fault_count = 0,
       m_resident_pages = 0, ghost = (\<lambda>_. 0)\<rparr>"
  have a: "m_base_addr ?mm \<noteq> 0" by simp
  have b: "magic (ghost ?mm) (m_base_addr ?mm) \<noteq> GHOST_MAGIC"
    by (simp add: magic_def load64_zero GHOST_MAGIC_def)
  show "m_base_addr (initialize_header ?mm) = 4096"
    "head_offset (ghost (initialize_header ?mm)) 4096 = 24"
    "vector_count (ghost (initialize_header ?mm)) 4096 = 0"
    using initialize_header_fresh[OF a b] by simp_all
qed

text \<open>The run on the arena that \<open>initialize_header\<close> leaves at address 4096.\<close>

lemma ProcessDocument_initialized:
  fixes fo :: "'f float_ops"
  assumes "tc \<noteq> []"
  shows "\<exists>mm'. ProcessDocument fo (\<lambda>_. tc) content
           (initialize_header \<lparr>m_base_addr = 4096, m_running = True, m_fault_count = 0,
              m_resident_pages = 0, ghost = (\<lambda>_. 0)\<rparr>) =
           Inr (mm', record_writes fo tc 4120 @
                     [Store64 4112 288, FetchAdd64 4104 1 memory_order_release]) \<and>
           head_offset (ghost mm') 4096 = 288 \<and> vector_count (ghost mm') 4096 = 1"
  using ProcessDocument_run[where fo=fo and tokenize="\<lambda>_. tc" and content=content and
      mm="initialize_header \<lparr>m_base_addr = 4096, m_running = True, m_fault_count = 0,
              m_resident_pages = 0, ghost = (\<lambda>_. 0)\<rparr>"] assms
  by (simp add: initialized_arena unat_arena_size)

text \<open>
  C3 (as stated).  On an arena initialised by \<open>initialize_header\<close> (base 4096, head
  offset 24) and a document with one term, the accesses of \<open>ProcessDocument\<close> are the
  writes of the record, a plain store of the new head offset 288 and the fetch-add of the
  counter: no release store of the head offset is among them.
\<close>

theorem head_offset_release_store_counterexample:
  "accesses (ProcessDocument x86_64_float_ops (\<lambda>_. [(1, 1)]) ''doc''
       (initialize_header \<lparr>m_base_addr = 4096, m_running = True, m_fault_count = 0,
          m_resident_pages = 0, ghost = (\<lambda>_. 0)\<rparr>)) =
     Some (record_writes x86_64_float_ops [(1, 1)] 4120 @
             [Store64 4112 288, FetchAdd64 4104 1 memory_order_release]) \<and>
   AtomicStore64 4112 288 memory_order_release \<notin>
     set (record_writes x86_64_float_ops [(1, 1)] 4120 @
            [Store64 4112 288, FetchAdd64 4104 1 memory_order_release])"
proof -
  obtain mm' where "ProcessDocument x86_64_float_ops (\<lambda>_. [(1, 1)]) ''doc''
       (initialize_header \<lparr>m_base_addr = 4096, m_running = True, m_fault_count = 0,
          m_resident_pages = 0, ghost = (\<lambda>_. 0)\<rparr>) =
       Inr (mm', record_writes x86_64_float_ops [(1, 1)] 4120 @
                   [Store64 4112 288, FetchAdd64 4104 1 memory_order_release])"
    using ProcessDocument_initialized[of "[(1, 1)]" x86_64_float_ops "''doc''"] by auto
  then show ?thesis
    by (auto simp: accesses_def record_writes_def Let_def)
qed

text \<open>
  C3 (amended).  For every document whose tokenization is non-empty, on an arena (the
  \<open>S\<close> bytes from a non-null base \<open>B\<close>, a region of the address space) whose header holds
  a head offset \<open>h\<close> with \<open>24 \<le> h\<close> and \<open>h + 264 \<le> S\<close>, whatever the float arithmetic:
  \<open>ProcessDocument\<close> takes no fault, writes the record (scale, bias, 256 lanes; 264
  bytes) starting at \<open>B + h\<close>, then writes head_offset = \<open>h + 264\<close> with a plain,
  non-atomic store, and last adds 1 to vector_count with an atomic fetch-add of release
  order.  Afterwards the header holds head_offset = \<open>h + 264\<close> and the count plus one.
\<close>

theorem ProcessDocument_append_protocol:
  fixes fo :: "'f float_ops"
  assumes "tokenize content \<noteq> []" and "m_base_addr mm \<noteq> 0"
    and "unat (m_base_addr mm) + unat GHOST_SPACE_SIZE < 2 ^ 64"
    and "24 \<le> unat (head_offset (ghost mm) (m_base_addr mm))"
    and "unat (head_offset (ghost mm) (m_base_addr mm)) + 264 \<le> unat GHOST_SPACE_SIZE"
  shows "\<exists>mm'. ProcessDocument fo tokenize content mm =
           Inr (mm', record_writes fo (tokenize content)
                       (m_base_addr mm + head_offset (ghost mm) (m_base_addr mm)) @
                     [Store64 (m_base_addr mm + 16)
                        (head_offset (ghost mm) (m_base_addr mm) + 264),
                      FetchAdd64 (m_base_addr mm + 8) 1 memory_order_release]) \<and>
           head_offset (ghost mm') (m_base_addr mm) =
             head_offset (ghost mm) (m_base_addr mm) + 264 \<and>
           vector_count (ghost mm') (m_base_addr mm) =
             vector_count (ghost mm) (m_base_addr mm) + 1"
  using assms by (rule ProcessDocument_run)

theorem ProcessDocument_append_protocol_witness:
  "\<exists>mm'. ProcessDocument x86_64_float_ops (\<lambda>_. [(1, 1)]) ''doc''
       (initialize_header \<lparr>m_base_addr = 4096, m_running = True, m_fault_count = 0,
          m_resident_pages = 0, ghost = (\<lambda>_. 0)\<rparr>) =
     Inr (mm', record_writes x86_64_float_ops [(1, 1)] 4120 @
                 [Store64 4112 288, FetchAdd64 4104 1 memory_order_release]) \<and>
     head_offset (ghost mm') 4096 = 288 \<and> vector_count (ghost mm') 4096 = 1"
  using ProcessDocument_append_protocol[of "\<lambda>_. [(1, 1)]" "''doc''"
      "initialize_header \<lparr>m_base_addr = 4096, m_running = True, m_fault_count = 0,
          m_resident_pages = 0, ghost = (\<lambda>_. 0)\<rparr>" x86_64_float_ops]
  by (simp add: initialized_arena unat_arena_size)

text \<open>
  C6.  A document with 256 terms, one in each bucket, each once, has a flat dense vector:
  every lane is 1, so \<open>max - min = 0\<close>.  On an initialised arena, with the float
  operations of x86-64, \<open>ProcessDocument\<close> stores the scale 1.0 (bytes \<open>00 00 80 3F\<close>) and
  the bias 1.0, and then 127 in every lane, where the specification has -128: the
  program replaces the scale only, and the loop still divides by \<open>max - min\<close>.
\<close>

theorem flat_vector_lanes:
  "accesses (ProcessDocument x86_64_float_ops (\<lambda>_. flat_counts) ''doc''
       (initialize_header \<lparr>m_base_addr = 4096, m_running = True, m_fault_count = 0,
          m_resident_pages = 0, ghost = (\<lambda>_. 0)\<rparr>)) =
     Some ([Memcpy 4120 [0, 0, 128, 63], Memcpy 4124 [0, 0, 128, 63]] @
           map (\<lambda>i. Store8 (4128 + of_nat i) 127) [0..<256] @
           [Store64 4112 288, FetchAdd64 4104 1 memory_order_release])"
proof -
  have "flat_counts \<noteq> []" by (simp add: flat_counts_def)
  then obtain mm' where "ProcessDocument x86_64_float_ops (\<lambda>_. flat_counts) ''doc''
       (initialize_header \<lparr>m_base_addr = 4096, m_running = True, m_fault_count = 0,
          m_resident_pages = 0, ghost = (\<lambda>_. 0)\<rparr>) =
       Inr (mm', record_writes x86_64_float_ops flat_counts 4120 @
                   [Store64 4112 288, FetchAdd64 4104 1 memory_order_release])"
    using ProcessDocument_initialized[of flat_counts x86_64_float_ops "''doc''"] by auto
  then show ?thesis
    by (simp add: accesses_def record_writes_flat)
qed

section \<open>A run of the slab allocator that ends with adjacent free blocks\<close>

lemma wrapped_size: "(18446744073709551680::u64) = 64"
  by simp

lemma ovf_init:
  "ovf_cfg (SlabAllocator_new (\<lambda>_. 0) 65536 512 64 0)"
  "m_free_list_head_offset (SlabAllocator_new (\<lambda>_. 0) 65536 512 64 0) = 64"
  "load64 (heap (SlabAllocator_new (\<lambda>_. 0) 65536 512 64 0)) 65536 = 513"
  "load64 (heap (SlabAllocator_new (\<lambda>_. 0) 65536 512 64 0)) 65600 = 0"
  "load64 (heap (SlabAllocator_new (\<lambda>_. 0) 65536 512 64 0)) 65608 = 0"
  "load64 (heap (SlabAllocator_new (\<lambda>_. 0) 65536 512 64 0)) 65664 = 0"
  "load64 (heap (SlabAllocator_new (\<lambda>_. 0) 65536 512 64 0)) 65672 = 0"
  "load64 (heap (SlabAllocator_new (\<lambda>_. 0) 65536 512 64 0)) 65784 = 0"
  "load64 (heap (SlabAllocator_new (\<lambda>_. 0) 65536 512 64 0)) 65792 = 0"
  "load64 (heap (SlabAllocator_new (\<lambda>_. 0) 65536 512 64 0)) 65856 = 0"
  "load64 (heap (SlabAllocator_new (\<lambda>_. 0) 65536 512 64 0)) 65864 = 0"
  "load64 (heap (SlabAllocator_new (\<lambda>_. 0) 65536 512 64 0)) 65920 = 0"
  "load64 (heap (SlabAllocator_new (\<lambda>_. 0) 65536 512 64 0)) 65928 = 0"
  "load64 (heap (SlabAllocator_new (\<lambda>_. 0) 65536 512 64 0)) 66040 = 513"
  by (simp_all add: ovf_cfg_def SlabAllocator_new_def Init_def slab_ops Let_def ld_same ld_disj load64_zero)

lemma ovf_step1:
  assumes "ovf_cfg s"
    and "m_free_list_head_offset s = 64"
    and "load64 (heap s) 65536 = 513"
    and "load64 (heap s) 65600 = 0"
    and "load64 (heap s) 65608 = 0"
    and "load64 (heap s) 65664 = 0"
    and "load64 (heap s) 65672 = 0"
    and "load64 (heap s) 65784 = 0"
    and "load64 (heap s) 65792 = 0"
    and "load64 (heap s) 65856 = 0"
    and "load64 (heap s) 65864 = 0"
    and "load64 (heap s) 65920 = 0"
    and "load64 (heap s) 65928 = 0"
    and "load64 (heap s) 66040 = 513"
  shows "\<exists>s'. Allocate 100 s = Some (128, s') \<and>
     ovf_cfg s' \<and>
     m_free_list_head_offset s' = 320 \<and>
     load64 (heap s') 65536 = 256 \<and>
     load64 (heap s') 65600 = 0 \<and>
     load64 (heap s') 65608 = 0 \<and>
     load64 (heap s') 65664 = 0 \<and>
     load64 (heap s') 65672 = 0 \<and>
     load64 (heap s') 65784 = 256 \<and>
     load64 (heap s') 65792 = 257 \<and>
     load64 (heap s') 65856 = 0 \<and>
     load64 (heap s') 65864 = 0 \<and>
     load64 (heap s') 65920 = 0 \<and>
     load64 (heap s') 65928 = 0 \<and>
     load64 (heap s') 66040 = 257"
proof -
  note k = assms(3-)[THEN ld_known]
  have req: "Allocate 100 s = first_fit 256 64 s"
    using assms(2) by (simp add: Allocate_def Let_def sizeof_BlockHeader_def sizeof_BlockFooter_def ALIGNMENT_def)
  have hit: "first_fit 256 64 s = Some (take_block 256 64 s)"
    using assms(1) by (intro first_fit_hit) (simp_all add: GetSize_def GetPtr_def SIZE_MASK_def FREE_MASK_def ovf_cfg_def k)
  show ?thesis
    unfolding req hit
    using assms(1,2)
    by (simp add: slab_ops Let_def ld_same ld_disj k ovf_cfg_def split del: if_split
        cong: if_weak_cong let_weak_cong)
qed

lemma ovf_step2:
  assumes "ovf_cfg s"
    and "m_free_list_head_offset s = 320"
    and "load64 (heap s) 65536 = 256"
    and "load64 (heap s) 65600 = 0"
    and "load64 (heap s) 65608 = 0"
    and "load64 (heap s) 65664 = 0"
    and "load64 (heap s) 65672 = 0"
    and "load64 (heap s) 65784 = 256"
    and "load64 (heap s) 65792 = 257"
    and "load64 (heap s) 65856 = 0"
    and "load64 (heap s) 65864 = 0"
    and "load64 (heap s) 65920 = 0"
    and "load64 (heap s) 65928 = 0"
    and "load64 (heap s) 66040 = 257"
  shows "\<exists>s'. Allocate 18446744073709551552 s = Some (384, s') \<and>
     ovf_cfg s' \<and>
     m_free_list_head_offset s' = 384 \<and>
     load64 (heap s') 65536 = 256 \<and>
     load64 (heap s') 65600 = 0 \<and>
     load64 (heap s') 65608 = 0 \<and>
     load64 (heap s') 65664 = 0 \<and>
     load64 (heap s') 65672 = 0 \<and>
     load64 (heap s') 65784 = 256 \<and>
     load64 (heap s') 65792 = 64 \<and>
     load64 (heap s') 65856 = 193 \<and>
     load64 (heap s') 65920 = 193 \<and>
     load64 (heap s') 65928 = 0 \<and>
     load64 (heap s') 66040 = 193"
proof -
  note k = assms(3-)[THEN ld_known]
  have req: "Allocate 18446744073709551552 s = first_fit 64 320 s"
    using assms(2) by (simp add: Allocate_def Let_def sizeof_BlockHeader_def sizeof_BlockFooter_def ALIGNMENT_def wrapped_size)
  have hit: "first_fit 64 320 s = Some (take_block 64 320 s)"
    using assms(1) by (intro first_fit_hit) (simp_all add: GetSize_def GetPtr_def SIZE_MASK_def FREE_MASK_def ovf_cfg_def k)
  show ?thesis
    unfolding req hit
    using assms(1,2)
    by (simp add: slab_ops Let_def ld_same ld_disj k ovf_cfg_def split del: if_split
        cong: if_weak_cong let_weak_cong)
qed

lemma ovf_step3:
  assumes "ovf_cfg s"
    and "m_free_list_head_offset s = 384"
    and "load64 (heap s) 65536 = 256"
    and "load64 (heap s) 65600 = 0"
    and "load64 (heap s) 65608 = 0"
    and "load64 (heap s) 65664 = 0"
    and "load64 (heap s) 65672 = 0"
    and "load64 (heap s) 65784 = 256"
    and "load64 (heap s) 65792 = 64"
    and "load64 (heap s) 65856 = 193"
    and "load64 (heap s) 65920 = 193"
    and "load64 (heap s) 65928 = 0"
    and "load64 (heap s) 66040 = 193"
  shows "ovf_cfg (Free 128 s) \<and>
     m_free_list_head_offset (Free 128 s) = 64 \<and>
     load64 (heap (Free 128 s)) 65536 = 257 \<and>
     load64 (heap (Free 128 s)) 65600 = 384 \<and>
     load64 (heap (Free 128 s)) 65608 = 0 \<and>
     load64 (heap (Free 128 s)) 65664 = 0 \<and>
     load64 (heap (Free 128 s)) 65672 = 0 \<and>
     load64 (heap (Free 128 s)) 65784 = 257 \<and>
     load64 (heap (Free 128 s)) 65792 = 64 \<and>
     load64 (heap (Free 128 s)) 65856 = 193 \<and>
     load64 (heap (Free 128 s)) 65920 = 193 \<and>
     load64 (heap (Free 128 s)) 65928 = 64 \<and>
     load64 (heap (Free 128 s)) 66040 = 193"
proof -
  note k = assms(3-)[THEN ld_known]
  show ?thesis
    using assms(1,2)
    by (simp add: slab_ops Let_def ld_same ld_disj k ovf_cfg_def split del: if_split
        cong: if_weak_cong let_weak_cong)
qed

lemma ovf_step4:
  assumes "ovf_cfg s"
    and "m_free_list_head_offset s = 64"
    and "load64 (heap s) 65536 = 257"
    and "load64 (heap s) 65600 = 384"
    and "load64 (heap s) 65608 = 0"
    and "load64 (heap s) 65664 = 0"
    and "load64 (heap s) 65672 = 0"
    and "load64 (heap s) 65784 = 257"
    and "load64 (heap s) 65792 = 64"
    and "load64 (heap s) 65856 = 193"
    and "load64 (heap s) 65920 = 193"
    and "load64 (heap s) 65928 = 64"
    and "load64 (heap s) 66040 = 193"
  shows "\<exists>s'. Allocate 18446744073709551552 s = Some (128, s') \<and>
     ovf_cfg s' \<and>
     m_free_list_head_offset s' = 128 \<and>
     load64 (heap s') 65536 = 64 \<and>
     load64 (heap s') 65600 = 193 \<and>
     load64 (heap s') 65664 = 193 \<and>
     load64 (heap s') 65672 = 0 \<and>
     load64 (heap s') 65784 = 193 \<and>
     load64 (heap s') 65792 = 64 \<and>
     load64 (heap s') 65856 = 193 \<and>
     load64 (heap s') 65920 = 193 \<and>
     load64 (heap s') 65928 = 64 \<and>
     load64 (heap s') 66040 = 193"
proof -
  note k = assms(3-)[THEN ld_known]
  have req: "Allocate 18446744073709551552 s = first_fit 64 64 s"
    using assms(2) by (simp add: Allocate_def Let_def sizeof_BlockHeader_def sizeof_BlockFooter_def ALIGNMENT_def wrapped_size)
  have hit: "first_fit 64 64 s = Some (take_block 64 64 s)"
    using assms(1) by (intro first_fit_hit) (simp_all add: GetSize_def GetPtr_def SIZE_MASK_def FREE_MASK_def ovf_cfg_def k)
  show ?thesis
    unfolding req hit
    using assms(1,2)
    by (simp add: slab_ops Let_def ld_same ld_disj k ovf_cfg_def split del: if_split
        cong: if_weak_cong let_weak_cong)
qed

lemma ovf_step5:
  assumes "ovf_cfg s"
    and "m_free_list_head_offset s = 128"
    and "load64 (heap s) 65536 = 64"
    and "load64 (heap s) 65600 = 193"
    and "load64 (heap s) 65664 = 193"
    and "load64 (heap s) 65672 = 0"
    and "load64 (heap s) 65784 = 193"
    and "load64 (heap s) 65792 = 64"
    and "load64 (heap s) 65856 = 193"
    and "load64 (heap s) 65920 = 193"
    and "load64 (heap s) 65928 = 64"
    and "load64 (heap s) 66040 = 193"
  shows "\<exists>s'. Allocate 1 s = Some (192, s') \<and>
     ovf_cfg s' \<and>
     m_free_list_head_offset s' = 193 \<and>
     load64 (heap s') 65536 = 64 \<and>
     load64 (heap s') 65600 = 192 \<and>
     load64 (heap s') 65664 = 193 \<and>
     load64 (heap s') 65672 = 0 \<and>
     load64 (heap s') 65784 = 192 \<and>
     load64 (heap s') 65792 = 64 \<and>
     load64 (heap s') 65856 = 193 \<and>
     load64 (heap s') 65920 = 193 \<and>
     load64 (heap s') 65928 = 64 \<and>
     load64 (heap s') 66040 = 193"
proof -
  note k = assms(3-)[THEN ld_known]
  have req: "Allocate 1 s = first_fit 192 128 s"
    using assms(2) by (simp add: Allocate_def Let_def sizeof_BlockHeader_def sizeof_BlockFooter_def ALIGNMENT_def)
  have hit: "first_fit 192 128 s = Some (take_block 192 128 s)"
    using assms(1) by (intro first_fit_hit) (simp_all add: GetSize_def GetPtr_def SIZE_MASK_def FREE_MASK_def ovf_cfg_def k)
  show ?thesis
    unfolding req hit
    using assms(1,2)
    by (simp add: slab_ops Let_def ld_same ld_disj k ovf_cfg_def split del: if_split
        cong: if_weak_cong let_weak_cong)
qed

lemma ovf_step6:
  assumes "ovf_cfg s"
    and "m_free_list_head_offset s = 193"
    and "load64 (heap s) 65536 = 64"
    and "load64 (heap s) 65600 = 192"
    and "load64 (heap s) 65664 = 193"
    and "load64 (heap s) 65672 = 0"
    and "load64 (heap s) 65784 = 192"
    and "load64 (heap s) 65792 = 64"
    and "load64 (heap s) 65856 = 193"
    and "load64 (heap s) 65920 = 193"
    and "load64 (heap s) 65928 = 64"
    and "load64 (heap s) 66040 = 193"
  shows "ovf_cfg (Free 384 s) \<and>
     m_free_list_head_offset (Free 384 s) = 320 \<and>
     load64 (heap (Free 384 s)) 65536 = 64 \<and>
     load64 (heap (Free 384 s)) 65600 = 193 \<and>
     load64 (heap (Free 384 s)) 65664 = 193 \<and>
     load64 (heap (Free 384 s)) 65672 = 0 \<and>
     load64 (heap (Free 384 s)) 65784 = 192 \<and>
     load64 (heap (Free 384 s)) 65792 = 257 \<and>
     load64 (heap (Free 384 s)) 66040 = 257"
proof -
  note k = assms(3-)[THEN ld_known]
  show ?thesis
    using assms(1,2)
    by (simp add: slab_ops Let_def ld_same ld_disj k ovf_cfg_def split del: if_split
        cong: if_weak_cong let_weak_cong)
qed

lemma ovf_step7:
  assumes "ovf_cfg s"
    and "m_free_list_head_offset s = 320"
    and "load64 (heap s) 65536 = 64"
    and "load64 (heap s) 65600 = 193"
    and "load64 (heap s) 65664 = 193"
    and "load64 (heap s) 65672 = 0"
    and "load64 (heap s) 65784 = 192"
    and "load64 (heap s) 65792 = 257"
    and "load64 (heap s) 66040 = 257"
  shows "ovf_cfg (Free 128 s) \<and>
     m_free_list_head_offset (Free 128 s) = 64 \<and>
     load64 (heap (Free 128 s)) 65536 = 257 \<and>
     load64 (heap (Free 128 s)) 65784 = 257 \<and>
     load64 (heap (Free 128 s)) 65792 = 257 \<and>
     load64 (heap (Free 128 s)) 66040 = 257"
proof -
  note k = assms(3-)[THEN ld_known]
  show ?thesis
    using assms(1,2)
    by (simp add: slab_ops Let_def ld_same ld_disj k ovf_cfg_def split del: if_split
        cong: if_weak_cong let_weak_cong)
qed


lemma blocks_from_step:
  "0 < n \<Longrightarrow> blocks_from n s off =
     (if off < m_total_size s + m_base_offset s
      then (off, GetSize (heap s) (GetPtr s off), IsFree (heap s) (GetPtr s off)) #
           blocks_from (n - 1) s (off + GetSize (heap s) (GetPtr s off))
      else [])"
  by (cases n) simp_all

text \<open>
  C4.  The run ends, and it ends in a heap of exactly two blocks, at offsets 64 and 320,
  each of 256 bytes, adjacent and both free, after its last \<open>Free\<close> has returned.
\<close>

theorem overflow_run_leaves_adjacent_free_blocks:
  "map_option heap_blocks (overflow_run (SlabAllocator_new (\<lambda>_. 0) 65536 512 64 0)) =
     Some [(64, 256, True), (320, 256, True)] \<and>
   map_option (\<lambda>s. adjacent_free (heap_blocks s))
     (overflow_run (SlabAllocator_new (\<lambda>_. 0) 65536 512 64 0)) = Some True"
proof -
  let ?s0 = "SlabAllocator_new (\<lambda>_. 0) 65536 512 64 0"
  obtain s1 where s1:
    "Allocate 100 ?s0 = Some (128, s1)"
    "ovf_cfg s1"
    "m_free_list_head_offset s1 = 320"
    "load64 (heap s1) 65536 = 256"
    "load64 (heap s1) 65600 = 0"
    "load64 (heap s1) 65608 = 0"
    "load64 (heap s1) 65664 = 0"
    "load64 (heap s1) 65672 = 0"
    "load64 (heap s1) 65784 = 256"
    "load64 (heap s1) 65792 = 257"
    "load64 (heap s1) 65856 = 0"
    "load64 (heap s1) 65864 = 0"
    "load64 (heap s1) 65920 = 0"
    "load64 (heap s1) 65928 = 0"
    "load64 (heap s1) 66040 = 257"
    using ovf_step1[OF ovf_init] by blast
  obtain s2 where s2:
    "Allocate 18446744073709551552 s1 = Some (384, s2)"
    "ovf_cfg s2"
    "m_free_list_head_offset s2 = 384"
    "load64 (heap s2) 65536 = 256"
    "load64 (heap s2) 65600 = 0"
    "load64 (heap s2) 65608 = 0"
    "load64 (heap s2) 65664 = 0"
    "load64 (heap s2) 65672 = 0"
    "load64 (heap s2) 65784 = 256"
    "load64 (heap s2) 65792 = 64"
    "load64 (heap s2) 65856 = 193"
    "load64 (heap s2) 65920 = 193"
    "load64 (heap s2) 65928 = 0"
    "load64 (heap s2) 66040 = 193"
    using ovf_step2[OF s1(2-)] by blast
  define s3 where "s3 = Free 128 s2"
  have s3:
    "ovf_cfg s3"
    "m_free_list_head_offset s3 = 64"
    "load64 (heap s3) 65536 = 257"
    "load64 (heap s3) 65600 = 384"
    "load64 (heap s3) 65608 = 0"
    "load64 (heap s3) 65664 = 0"
    "load64 (heap s3) 65672 = 0"
    "load64 (heap s3) 65784 = 257"
    "load64 (heap s3) 65792 = 64"
    "load64 (heap s3) 65856 = 193"
    "load64 (heap s3) 65920 = 193"
    "load64 (heap s3) 65928 = 64"
    "load64 (heap s3) 66040 = 193"
    using ovf_step3[OF s2(2-)] by (simp_all add: s3_def)
  obtain s4 where s4:
    "Allocate 18446744073709551552 s3 = Some (128, s4)"
    "ovf_cfg s4"
    "m_free_list_head_offset s4 = 128"
    "load64 (heap s4) 65536 = 64"
    "load64 (heap s4) 65600 = 193"
    "load64 (heap s4) 65664 = 193"
    "load64 (heap s4) 65672 = 0"
    "load64 (heap s4) 65784 = 193"
    "load64 (heap s4) 65792 = 64"
    "load64 (heap s4) 65856 = 193"
    "load64 (heap s4) 65920 = 193"
    "load64 (heap s4) 65928 = 64"
    "load64 (heap s4) 66040 = 193"
    using ovf_step4[OF s3] by blast
  obtain s5 where s5:
    "Allocate 1 s4 = Some (192, s5)"
    "ovf_cfg s5"
    "m_free_list_head_offset s5 = 193"
    "load64 (heap s5) 65536 = 64"
    "load64 (heap s5) 65600 = 192"
    "load64 (heap s5) 65664 = 193"
    "load64 (heap s5) 65672 = 0"
    "load64 (heap s5) 65784 = 192"
    "load64 (heap s5) 65792 = 64"
    "load64 (heap s5) 65856 = 193"
    "load64 (heap s5) 65920 = 193"
    "load64 (heap s5) 65928 = 64"
    "load64 (heap s5) 66040 = 193"
    using ovf_step5[OF s4(2-)] by blast
  define s6 where "s6 = Free 384 s5"
  have s6:
    "ovf_cfg s6"
    "m_free_list_head_offset s6 = 320"
    "load64 (heap s6) 65536 = 64"
    "load64 (heap s6) 65600 = 193"
    "load64 (heap s6) 65664 = 193"
    "load64 (heap s6) 65672 = 0"
    "load64 (heap s6) 65784 = 192"
    "load64 (heap s6) 65792 = 257"
    "load64 (heap s6) 66040 = 257"
    using ovf_step6[OF s5(2-)] by (simp_all add: s6_def)
  define s7 where "s7 = Free 128 s6"
  have s7:
    "ovf_cfg s7"
    "m_free_list_head_offset s7 = 64"
    "load64 (heap s7) 65536 = 257"
    "load64 (heap s7) 65784 = 257"
    "load64 (heap s7) 65792 = 257"
    "load64 (heap s7) 66040 = 257"
    using ovf_step7[OF s6] by (simp_all add: s7_def)
  have run: "overflow_run ?s0 = Some s7"
    by (simp add: overflow_run_def s1(1) s2(1) s4(1)[unfolded s3_def] s5(1) s6_def s7_def)
  note k = s7(3-)[THEN ld_known]
  have blocks: "heap_blocks s7 = [(64, 256, True), (320, 256, True)]"
    using s7(1)
    by (simp add: heap_blocks_def ovf_cfg_def blocks_from_step GetSize_def IsFree_def GetPtr_def
        SIZE_MASK_def FREE_MASK_def k)
  show ?thesis by (simp add: run blocks)
qed

end
